theory Spec2Isabelle
  imports Complex_Main "HOL-Library.Word"
begin

unbundle bit_operations_syntax

section \<open>Strings, bytes and completions\<close>

text \<open>
  A JavaScript string is a sequence of UTF-16 code units; its \<open>length\<close> counts code
  units. A Buffer is a sequence of bytes. The labels of the catalog are plain ASCII and
  stay HOL strings.
\<close>

type_synonym jschar = "16 word"
type_synonym jsstring = "jschar list"
type_synonym byte = "8 word"

definition js :: "string \<Rightarrow> jsstring" where
  "js s = map of_char s"

text \<open>
  A call either returns or throws. A manipulation has the type
  \<open>(text: string) => string | null\<close>: \<open>Return None\<close> is the value \<open>null\<close>.
\<close>

datatype error = RangeError | TypeError | SyntaxError | URIError

datatype 'a completion = Return 'a | Throw error

definition join :: "jsstring \<Rightarrow> jsstring list \<Rightarrow> jsstring" where
  "join sep xs = (case xs of [] \<Rightarrow> [] | y # ys \<Rightarrow> y @ concat (map (\<lambda>z. sep @ z) ys))"

definition slice :: "jsstring \<Rightarrow> nat \<Rightarrow> nat \<Rightarrow> jsstring" where
  \<comment> \<open>\<open>text.slice(a, b)\<close> for indices \<open>0 \<le> a\<close>, \<open>0 \<le> b\<close>\<close>
  "slice text a b = take (b - a) (drop a text)"

subsection \<open>\<open>String.prototype.trim\<close>\<close>

definition isWhiteSpace :: "jschar \<Rightarrow> bool" where
  \<comment> \<open>WhiteSpace and LineTerminator of ECMA-262\<close>
  "isWhiteSpace c =
     (c = 0x9 \<or> c = 0xA \<or> c = 0xB \<or> c = 0xC \<or> c = 0xD \<or> c = 0x20 \<or> c = 0xA0
      \<or> c = 0x1680 \<or> (0x2000 \<le> c \<and> c \<le> 0x200A) \<or> c = 0x2028 \<or> c = 0x2029
      \<or> c = 0x202F \<or> c = 0x205F \<or> c = 0x3000 \<or> c = 0xFEFF)"

definition trimStart :: "jsstring \<Rightarrow> jsstring" where
  "trimStart s = dropWhile isWhiteSpace s"

definition trim :: "jsstring \<Rightarrow> jsstring" where
  "trim s = rev (dropWhile isWhiteSpace (rev (dropWhile isWhiteSpace s)))"

section \<open>Numbers\<close>

text \<open>
  A Number is a double: \<open>NaN\<close>, an infinity, or a rational that the format represents
  exactly. \<open>-0\<close> prints as \<open>0\<close> and is \<open>Num 0\<close> here.
\<close>

datatype number = NaN | Num rat | PosInfinity | NegInfinity

definition digitValue :: "jschar \<Rightarrow> nat option" where
  "digitValue c =
     (if 0x30 \<le> c \<and> c \<le> 0x39 then Some (unat c - 48)
      else if 0x61 \<le> c \<and> c \<le> 0x7A then Some (unat c - 87)
      else if 0x41 \<le> c \<and> c \<le> 0x5A then Some (unat c - 55)
      else None)"

definition isRadixDigit :: "nat \<Rightarrow> jschar \<Rightarrow> bool" where
  "isRadixDigit R c = (case digitValue c of None \<Rightarrow> False | Some d \<Rightarrow> d < R)"

definition isDigit :: "jschar \<Rightarrow> bool" where
  "isDigit c = (0x30 \<le> c \<and> c \<le> 0x39)"

definition mathInt :: "nat \<Rightarrow> jsstring \<Rightarrow> nat" where
  "mathInt R Z = foldl (\<lambda>a c. a * R + (case digitValue c of None \<Rightarrow> 0 | Some d \<Rightarrow> d)) 0 Z"

definition digitChar :: "nat \<Rightarrow> jschar" where
  "digitChar d = (if d < 10 then of_nat (48 + d) else of_nat (87 + d))"

function radixDigits :: "nat \<Rightarrow> nat \<Rightarrow> jsstring" where
  "radixDigits R n =
     (if R < 2 \<or> n < R then [digitChar n] else radixDigits R (n div R) @ [digitChar (n mod R)])"
  by pat_completeness auto
termination
  by (relation "measure snd") auto

definition pow_int :: "nat \<Rightarrow> int \<Rightarrow> rat" where
  "pow_int R z = (if 0 \<le> z then of_nat (R ^ nat z) else 1 / of_nat (R ^ nat (- z)))"

definition ilog :: "nat \<Rightarrow> rat \<Rightarrow> int" where
  \<comment> \<open>for \<open>0 < x\<close>: the \<open>e\<close> with \<open>R\<^sup>e \<le> x < R\<^sup>e\<^sup>+\<^sup>1\<close>\<close>
  "ilog R x =
     (if 1 \<le> x then int (length (radixDigits R (nat \<lfloor>x\<rfloor>))) - 1
      else
        let y = 1 / x; f = length (radixDigits R (nat \<lfloor>y\<rfloor>)) - 1
        in if of_nat (R ^ f) = y then - int f else - int f - 1)"

definition to_double :: "rat \<Rightarrow> number" where
  \<comment> \<open>the Number value for a mathematical value: round to nearest, ties to even, at 53
      significant bits, with gradual underflow, and overflow to an infinity when the
      rounded value reaches \<open>2\<^sup>1\<^sup>0\<^sup>2\<^sup>4\<close>\<close>
  "to_double q =
     (if q = 0 then Num 0
      else
        let a = \<bar>q\<bar>;
            e = max (ilog 2 a) (- 1022);
            ulp = pow_int 2 (e - 52);
            t = a / ulp;
            m = \<lfloor>t\<rfloor>;
            r = t - of_int m;
            m' = (if 1 / 2 < r \<or> (r = 1 / 2 \<and> odd m) then m + 1 else m);
            v = of_int m' * ulp
        in if 1024 \<le> e \<or> (e = 1023 \<and> m' = 2 ^ 53)
           then (if q < 0 then NegInfinity else PosInfinity)
           else Num (if q < 0 then - v else v))"

text \<open>
  The same rounding for a natural number, in integer arithmetic: what \<open>parseInt\<close>
  returns for the digits it has read.
\<close>

fun bitlength :: "nat \<Rightarrow> nat \<Rightarrow> nat" where
  \<comment> \<open>the number of binary digits of the second argument; the first bounds the count\<close>
  "bitlength 0 n = 0"
| "bitlength (Suc f) n = (if n = 0 then 0 else Suc (bitlength f (n div 2)))"

definition round_to_double :: "nat \<Rightarrow> nat option" where
  \<comment> \<open>\<open>9007199254740992\<close> is \<open>2\<^sup>5\<^sup>3\<close>; \<open>None\<close> is the overflow\<close>
  "round_to_double a =
     (if a < 9007199254740992 then Some a
      else
        let l = bitlength a a; sh = l - 53; q = a div 2 ^ sh; r = a mod 2 ^ sh; half = 2 ^ (sh - 1);
            q' = (if half < r \<or> (r = half \<and> odd q) then q + 1 else q)
        in if 1024 < l \<or> (l = 1024 \<and> q' = 2 ^ 53) then None else Some (q' * 2 ^ sh))"

definition Number_of_int :: "bool \<Rightarrow> nat \<Rightarrow> number" where
  \<comment> \<open>the Number value for the integer with the given sign and magnitude\<close>
  "Number_of_int negative a =
     (case round_to_double a of
        None \<Rightarrow> (if negative then NegInfinity else PosInfinity)
      | Some v \<Rightarrow> Num (if negative then - of_nat v else of_nat v))"

subsection \<open>\<open>parseInt(string, radix)\<close>\<close>

definition parseInt :: "jsstring \<Rightarrow> nat \<Rightarrow> number" where
  "parseInt string radix =
     (let S0 = trimStart string;
          negative = (case S0 of [] \<Rightarrow> False | c # _ \<Rightarrow> c = 0x2D);
          S1 = (case S0 of [] \<Rightarrow> [] | c # cs \<Rightarrow> if c = 0x2B \<or> c = 0x2D then cs else S0)
      in if radix \<noteq> 0 \<and> (radix < 2 \<or> 36 < radix) then NaN
      else
        let stripPrefix = (radix = 0 \<or> radix = 16);
            hasPrefix = (stripPrefix \<and> (take 2 S1 = js ''0x'' \<or> take 2 S1 = js ''0X''));
            S2 = (if hasPrefix then drop 2 S1 else S1);
            R = (if hasPrefix then 16 else if radix = 0 then 10 else radix);
            Z = takeWhile (isRadixDigit R) S2
        in if Z = [] then NaN
           else Number_of_int negative (mathInt R Z))"

subsection \<open>\<open>Number.prototype.toString(radix)\<close>\<close>

text \<open>
  For a positive \<open>x\<close> the digits are those of the integers \<open>n\<close>, \<open>k\<close>, \<open>s\<close> with
  \<open>R\<^sup>k\<^sup>-\<^sup>1 \<le> s < R\<^sup>k\<close> such that \<open>s \<times> R\<^sup>n\<^sup>-\<^sup>k\<close> rounds to \<open>x\<close> and \<open>k\<close> is as small as
  possible; of two such \<open>s\<close> the one closest to \<open>x\<close>. A double has at most 53 significant
  binary digits and is told apart by 17 decimal ones.
\<close>

definition roundsTo :: "nat \<Rightarrow> rat \<Rightarrow> nat \<Rightarrow> int \<Rightarrow> bool" where
  "roundsTo R x s z = (s \<noteq> 0 \<and> to_double (of_nat s * pow_int R z) = Num x)"

definition digitCandidate :: "nat \<Rightarrow> rat \<Rightarrow> int \<Rightarrow> (nat \<times> int) option" where
  \<comment> \<open>of the two multiples of \<open>R\<^sup>z\<close> next to \<open>x\<close>, the closest one that rounds to \<open>x\<close>\<close>
  "digitCandidate R x z =
     (let u = pow_int R z;
          lo = nat \<lfloor>x / u\<rfloor>;
          lower_first = (x - of_nat lo * u \<le> of_nat (lo + 1) * u - x);
          c1 = (if lower_first then lo else lo + 1);
          c2 = (if lower_first then lo + 1 else lo)
      in if roundsTo R x c1 z then Some (c1, z)
         else if roundsTo R x c2 z then Some (c2, z)
         else None)"

fun searchDigits :: "nat \<Rightarrow> nat \<Rightarrow> rat \<Rightarrow> int \<Rightarrow> nat \<times> int" where
  \<comment> \<open>the first argument bounds the number of digits still to be tried\<close>
  "searchDigits 0 R x z = (0, 0)"
| "searchDigits (Suc f) R x z =
     (case digitCandidate R x z of
        Some c \<Rightarrow> c
      | None \<Rightarrow> searchDigits f R x (z - 1))"

definition shortestDigits :: "nat \<Rightarrow> rat \<Rightarrow> nat \<times> int" where
  "shortestDigits R x = searchDigits 53 R x (ilog R x)"

definition positiveString :: "nat \<Rightarrow> rat \<Rightarrow> jsstring" where
  "positiveString R x =
     (let (s, z) = shortestDigits R x;
          ds0 = radixDigits R s;
          ds = rev (dropWhile (\<lambda>c. c = 0x30) (rev ds0));
          k = int (length ds);
          n = int (length ds0) + z
      in if R \<noteq> 10 \<or> (- 6 < n \<and> n \<le> 21) then
           (if k \<le> n then ds @ replicate (nat (n - k)) 0x30
            else if 0 < n then take (nat n) ds @ js ''.'' @ drop (nat n) ds
            else js ''0.'' @ replicate (nat (- n)) 0x30 @ ds)
         else
           take 1 ds @ (if k = 1 then [] else js ''.'' @ drop 1 ds) @ js ''e''
           @ (if 0 \<le> n - 1 then js ''+'' else js ''-'') @ radixDigits 10 (nat \<bar>n - 1\<bar>))"

fun fractionDigits :: "nat \<Rightarrow> nat \<Rightarrow> rat \<Rightarrow> jsstring" where
  \<comment> \<open>the digits of \<open>0 \<le> f < 1\<close> after the point; the first argument bounds their number\<close>
  "fractionDigits 0 R f = []"
| "fractionDigits (Suc n) R f =
     (if f = 0 then []
      else digitChar (nat \<lfloor>f * of_nat R\<rfloor>)
           # fractionDigits n R (f * of_nat R - of_int \<lfloor>f * of_nat R\<rfloor>))"

definition exactString :: "nat \<Rightarrow> rat \<Rightarrow> jsstring" where
  \<comment> \<open>in the radices 2 and 16 every double has a finite expansion, and no shorter string
      rounds to it\<close>
  "exactString R x =
     radixDigits R (nat \<lfloor>x\<rfloor>)
     @ (if x = of_int \<lfloor>x\<rfloor> then [] else js ''.'' @ fractionDigits 1100 R (x - of_int \<lfloor>x\<rfloor>))"

definition Number_toString :: "number \<Rightarrow> nat \<Rightarrow> jsstring" where
  "Number_toString x radix =
     (case x of
        NaN \<Rightarrow> js ''NaN''
      | PosInfinity \<Rightarrow> js ''Infinity''
      | NegInfinity \<Rightarrow> js ''-Infinity''
      | Num q \<Rightarrow>
          (if q = 0 then js ''0''
           else (if q < 0 then js ''-'' else [])
                @ (if radix = 10 then positiveString 10 \<bar>q\<bar> else exactString radix \<bar>q\<bar>)))"

section \<open>Buffers\<close>

subsection \<open>Code points\<close>

definition isLeadingSurrogate :: "jschar \<Rightarrow> bool" where
  "isLeadingSurrogate c = (0xD800 \<le> c \<and> c \<le> 0xDBFF)"

definition isTrailingSurrogate :: "jschar \<Rightarrow> bool" where
  "isTrailingSurrogate c = (0xDC00 \<le> c \<and> c \<le> 0xDFFF)"

definition isSurrogate :: "nat \<Rightarrow> bool" where
  "isSurrogate cp = (0xD800 \<le> cp \<and> cp \<le> 0xDFFF)"

fun codePoints :: "jsstring \<Rightarrow> nat list" where
  \<comment> \<open>StringToCodePoints: an unpaired surrogate is the code point of its own value\<close>
  "codePoints [] = []"
| "codePoints [c] = [unat c]"
| "codePoints (c # d # r) =
     (if isLeadingSurrogate c \<and> isTrailingSurrogate d
      then (0x10000 + (unat c - 0xD800) * 1024 + (unat d - 0xDC00)) # codePoints r
      else unat c # codePoints (d # r))"

definition codeUnits :: "nat \<Rightarrow> jsstring" where
  \<comment> \<open>UTF16EncodeCodePoint\<close>
  "codeUnits cp =
     (if cp < 0x10000 then [of_nat cp]
      else [of_nat (0xD800 + (cp - 0x10000) div 1024), of_nat (0xDC00 + (cp - 0x10000) mod 1024)])"

definition isWellFormed :: "jsstring \<Rightarrow> bool" where
  \<comment> \<open>\<open>String.prototype.isWellFormed\<close>: no unpaired surrogate\<close>
  "isWellFormed s = list_all (\<lambda>cp. \<not> isSurrogate cp) (codePoints s)"

subsection \<open>\<open>Buffer.from(text, "utf-8")\<close> and \<open>buffer.toString("utf-8")\<close>\<close>

definition utf8_bytes :: "nat \<Rightarrow> byte list" where
  "utf8_bytes cp =
     (if cp < 0x80 then [of_nat cp]
      else if cp < 0x800 then [of_nat (0xC0 + cp div 64), of_nat (0x80 + cp mod 64)]
      else if cp < 0x10000 then
        [of_nat (0xE0 + cp div 4096), of_nat (0x80 + cp div 64 mod 64), of_nat (0x80 + cp mod 64)]
      else
        [of_nat (0xF0 + cp div 262144), of_nat (0x80 + cp div 4096 mod 64),
         of_nat (0x80 + cp div 64 mod 64), of_nat (0x80 + cp mod 64)])"

definition utf8_encode :: "jsstring \<Rightarrow> byte list" where
  \<comment> \<open>an unpaired surrogate is written as U+FFFD\<close>
  "utf8_encode s =
     concat (map (\<lambda>cp. utf8_bytes (if isSurrogate cp then 0xFFFD else cp)) (codePoints s))"

definition between :: "byte \<Rightarrow> byte \<Rightarrow> byte \<Rightarrow> bool" where
  "between lo hi b = (lo \<le> b \<and> b \<le> hi)"

definition lowerBoundary :: "byte \<Rightarrow> byte" where
  \<comment> \<open>the least second byte after the lead byte \<open>b\<close>\<close>
  "lowerBoundary b = (if b = 0xE0 then 0xA0 else if b = 0xF0 then 0x90 else 0x80)"

definition upperBoundary :: "byte \<Rightarrow> byte" where
  "upperBoundary b = (if b = 0xED then 0x9F else if b = 0xF4 then 0x8F else 0xBF)"

definition tailBits :: "byte \<Rightarrow> nat" where
  "tailBits b = unat b - 0x80"

fun utf8_decode :: "byte list \<Rightarrow> jsstring" where
  \<comment> \<open>the decoder never fails: each maximal ill-formed run of bytes is read as U+FFFD\<close>
  "utf8_decode [] = []"
| "utf8_decode (b # bs) =
     (if b < 0x80 then ucast b # utf8_decode bs
      else if between 0xC2 0xDF b then
        (case bs of
           [] \<Rightarrow> [0xFFFD]
         | b1 # r1 \<Rightarrow>
             if between 0x80 0xBF b1
             then codeUnits ((unat b - 0xC0) * 64 + tailBits b1) @ utf8_decode r1
             else 0xFFFD # utf8_decode bs)
      else if between 0xE0 0xEF b then
        (case bs of
           [] \<Rightarrow> [0xFFFD]
         | b1 # r1 \<Rightarrow>
             if between (lowerBoundary b) (upperBoundary b) b1 then
               (case r1 of
                  [] \<Rightarrow> [0xFFFD]
                | b2 # r2 \<Rightarrow>
                    if between 0x80 0xBF b2
                    then codeUnits ((unat b - 0xE0) * 4096 + tailBits b1 * 64 + tailBits b2)
                         @ utf8_decode r2
                    else 0xFFFD # utf8_decode r1)
             else 0xFFFD # utf8_decode bs)
      else if between 0xF0 0xF4 b then
        (case bs of
           [] \<Rightarrow> [0xFFFD]
         | b1 # r1 \<Rightarrow>
             if between (lowerBoundary b) (upperBoundary b) b1 then
               (case r1 of
                  [] \<Rightarrow> [0xFFFD]
                | b2 # r2 \<Rightarrow>
                    if between 0x80 0xBF b2 then
                      (case r2 of
                         [] \<Rightarrow> [0xFFFD]
                       | b3 # r3 \<Rightarrow>
                           if between 0x80 0xBF b3
                           then codeUnits ((unat b - 0xF0) * 262144 + tailBits b1 * 4096
                                           + tailBits b2 * 64 + tailBits b3)
                                @ utf8_decode r3
                           else 0xFFFD # utf8_decode r2)
                    else 0xFFFD # utf8_decode r1)
             else 0xFFFD # utf8_decode bs)
      else 0xFFFD # utf8_decode bs)"

subsection \<open>The encoding \<open>"hex"\<close>\<close>

definition hex_encode :: "byte list \<Rightarrow> jsstring" where
  "hex_encode bs = concat (map (\<lambda>b. [digitChar (unat b div 16), digitChar (unat b mod 16)]) bs)"

definition hexValue :: "jschar \<Rightarrow> nat option" where
  "hexValue c = (if isRadixDigit 16 c then digitValue c else None)"

definition lowByte :: "jschar \<Rightarrow> jschar" where
  \<comment> \<open>Node's decoders of \<open>"hex"\<close> and \<open>"base64"\<close> read a code unit of the string through
      a cast to \<open>uint8_t\<close>: they see its low byte only\<close>
  "lowByte c = c AND 0xFF"

fun hex_decode :: "jsstring \<Rightarrow> byte list" where
  \<comment> \<open>Node truncates at the first pair that is not two hexadecimal digits, and drops a
      single trailing digit; it does not throw\<close>
  "hex_decode (a # b # r) =
     (case (hexValue (lowByte a), hexValue (lowByte b)) of
        (Some x, Some y) \<Rightarrow> of_nat (x * 16 + y) # hex_decode r
      | _ \<Rightarrow> [])"
| "hex_decode _ = []"

subsection \<open>The encoding \<open>"base64"\<close>\<close>

definition base64_char :: "nat \<Rightarrow> jschar" where
  "base64_char v =
     (if v < 26 then of_nat (65 + v)
      else if v < 52 then of_nat (97 + (v - 26))
      else if v < 62 then of_nat (48 + (v - 52))
      else if v = 62 then 0x2B
      else 0x2F)"

fun base64_groups :: "nat list \<Rightarrow> jsstring" where
  "base64_groups (a # b # c # r) =
     [base64_char (a div 4), base64_char (a mod 4 * 16 + b div 16),
      base64_char (b mod 16 * 4 + c div 64), base64_char (c mod 64)] @ base64_groups r"
| "base64_groups [a, b] =
     [base64_char (a div 4), base64_char (a mod 4 * 16 + b div 16), base64_char (b mod 16 * 4), 0x3D]"
| "base64_groups [a] = [base64_char (a div 4), base64_char (a mod 4 * 16), 0x3D, 0x3D]"
| "base64_groups [] = []"

definition base64_encode :: "byte list \<Rightarrow> jsstring" where
  "base64_encode bs = base64_groups (map unat bs)"

definition unbase64 :: "jschar \<Rightarrow> nat option" where
  \<comment> \<open>the standard alphabet and the URL-safe one\<close>
  "unbase64 c =
     (if 0x41 \<le> c \<and> c \<le> 0x5A then Some (unat c - 65)
      else if 0x61 \<le> c \<and> c \<le> 0x7A then Some (unat c - 71)
      else if 0x30 \<le> c \<and> c \<le> 0x39 then Some (unat c + 4)
      else if c = 0x2B \<or> c = 0x2D then Some 62
      else if c = 0x2F \<or> c = 0x5F then Some 63
      else None)"

fun base64_ungroup :: "nat list \<Rightarrow> byte list" where
  "base64_ungroup (a # b # c # d # r) =
     [of_nat (a * 4 + b div 16), of_nat (b mod 16 * 16 + c div 4), of_nat (c mod 4 * 64 + d)]
     @ base64_ungroup r"
| "base64_ungroup [a, b, c] = [of_nat (a * 4 + b div 16), of_nat (b mod 16 * 16 + c div 4)]"
| "base64_ungroup [a, b] = [of_nat (a * 4 + b div 16)]"
| "base64_ungroup _ = []"

definition base64_sextets :: "jsstring \<Rightarrow> nat list" where
  \<comment> \<open>Node skips every character outside the alphabets and stops at the first \<open>=\<close>, all
      of them read through their low bytes\<close>
  "base64_sextets s = List.map_filter unbase64 (takeWhile (\<lambda>c. c \<noteq> 0x3D) (map lowByte s))"

definition base64_decode :: "jsstring \<Rightarrow> byte list" where
  \<comment> \<open>it does not throw\<close>
  "base64_decode s = base64_ungroup (base64_sextets s)"

subsection \<open>Valid input of the two encodings\<close>

definition isHexString :: "jsstring \<Rightarrow> bool" where
  \<comment> \<open>hexadecimal digits, two for each byte\<close>
  "isHexString s = (even (length s) \<and> list_all (isRadixDigit 16) s)"

definition isBase64String :: "jsstring \<Rightarrow> bool" where
  \<comment> \<open>RFC 4648: groups of four characters of an alphabet, the last one padded with \<open>=\<close>\<close>
  "isBase64String s =
     (length s mod 4 = 0
      \<and> list_all (\<lambda>c. unbase64 c \<noteq> None) (takeWhile (\<lambda>c. c \<noteq> 0x3D) s)
      \<and> (dropWhile (\<lambda>c. c \<noteq> 0x3D) s = [] \<or> dropWhile (\<lambda>c. c \<noteq> 0x3D) s = [0x3D]
           \<or> dropWhile (\<lambda>c. c \<noteq> 0x3D) s = [0x3D, 0x3D]))"

section \<open>Web encodings\<close>

subsection \<open>\<open>encodeURIComponent\<close> and \<open>decodeURIComponent\<close>\<close>

definition uriUnreserved :: "nat \<Rightarrow> bool" where
  \<comment> \<open>letters, digits and \<open>- _ . ! ~ * ' ( )\<close>\<close>
  "uriUnreserved cp =
     ((0x41 \<le> cp \<and> cp \<le> 0x5A) \<or> (0x61 \<le> cp \<and> cp \<le> 0x7A) \<or> (0x30 \<le> cp \<and> cp \<le> 0x39)
      \<or> cp = 0x2D \<or> cp = 0x5F \<or> cp = 0x2E \<or> cp = 0x21 \<or> cp = 0x7E \<or> cp = 0x2A
      \<or> cp = 0x27 \<or> cp = 0x28 \<or> cp = 0x29)"

definition upperHexChar :: "nat \<Rightarrow> jschar" where
  "upperHexChar d = (if d < 10 then of_nat (48 + d) else of_nat (55 + d))"

definition percentEncode :: "byte \<Rightarrow> jsstring" where
  "percentEncode b = [0x25, upperHexChar (unat b div 16), upperHexChar (unat b mod 16)]"

definition encodeURIComponent :: "jsstring \<Rightarrow> jsstring completion" where
  \<comment> \<open>an unpaired surrogate is a URIError\<close>
  "encodeURIComponent s =
     (if isWellFormed s
      then Return (concat (map (\<lambda>cp. if uriUnreserved cp then [of_nat cp]
                                      else concat (map percentEncode (utf8_bytes cp)))
                          (codePoints s)))
      else Throw URIError)"

definition percentOctet :: "jsstring \<Rightarrow> byte option" where
  \<comment> \<open>the octet of a leading \<open>%XX\<close>\<close>
  "percentOctet cs =
     (case cs of
        p # h # l # _ \<Rightarrow>
          (if p = 0x25 then
             (case (hexValue h, hexValue l) of
                (Some a, Some b) \<Rightarrow> Some (of_nat (a * 16 + b))
              | _ \<Rightarrow> None)
           else None)
      | _ \<Rightarrow> None)"

fun percentOctets :: "nat \<Rightarrow> jsstring \<Rightarrow> byte list option" where
  "percentOctets 0 cs = Some []"
| "percentOctets (Suc k) cs =
     (case percentOctet cs of
        None \<Rightarrow> None
      | Some b \<Rightarrow> (case percentOctets k (drop 3 cs) of None \<Rightarrow> None | Some bs \<Rightarrow> Some (b # bs)))"

definition leadingOnes :: "byte \<Rightarrow> nat" where
  \<comment> \<open>the number of leading 1 bits, as far as it matters\<close>
  "leadingOnes b =
     (if b < 0x80 then 0 else if b < 0xC0 then 1 else if b < 0xE0 then 2
      else if b < 0xF0 then 3 else if b < 0xF8 then 4 else 5)"

definition utf8_code_point :: "byte list \<Rightarrow> nat option" where
  \<comment> \<open>the code point of a well-formed UTF-8 sequence of two to four octets\<close>
  "utf8_code_point bs =
     (case bs of
        [b, b1] \<Rightarrow>
          if between 0xC2 0xDF b \<and> between 0x80 0xBF b1
          then Some ((unat b - 0xC0) * 64 + tailBits b1) else None
      | [b, b1, b2] \<Rightarrow>
          if between 0xE0 0xEF b \<and> between (lowerBoundary b) (upperBoundary b) b1
             \<and> between 0x80 0xBF b2
          then Some ((unat b - 0xE0) * 4096 + tailBits b1 * 64 + tailBits b2) else None
      | [b, b1, b2, b3] \<Rightarrow>
          if between 0xF0 0xF4 b \<and> between (lowerBoundary b) (upperBoundary b) b1
             \<and> between 0x80 0xBF b2 \<and> between 0x80 0xBF b3
          then Some ((unat b - 0xF0) * 262144 + tailBits b1 * 4096 + tailBits b2 * 64 + tailBits b3)
          else None
      | _ \<Rightarrow> None)"

fun uri_decode :: "jsstring \<Rightarrow> jsstring option" where
  \<comment> \<open>\<open>None\<close> is the URIError\<close>
  "uri_decode [] = Some []"
| "uri_decode (c # cs) =
     (if c \<noteq> 0x25 then (case uri_decode cs of None \<Rightarrow> None | Some r \<Rightarrow> Some (c # r))
      else
        case percentOctet (c # cs) of
          None \<Rightarrow> None
        | Some b \<Rightarrow>
            if leadingOnes b = 0 then
              (case uri_decode (drop 2 cs) of None \<Rightarrow> None | Some r \<Rightarrow> Some (ucast b # r))
            else if leadingOnes b = 1 \<or> 4 < leadingOnes b then None
            else
              (case percentOctets (leadingOnes b - 1) (drop 2 cs) of
                 None \<Rightarrow> None
               | Some bs \<Rightarrow>
                   (case utf8_code_point (b # bs) of
                      None \<Rightarrow> None
                    | Some v \<Rightarrow>
                        (case uri_decode (drop (3 * (leadingOnes b - 1)) (drop 2 cs)) of
                           None \<Rightarrow> None
                         | Some r \<Rightarrow> Some (codeUnits v @ r)))))"

definition decodeURIComponent :: "jsstring \<Rightarrow> jsstring completion" where
  "decodeURIComponent s = (case uri_decode s of None \<Rightarrow> Throw URIError | Some r \<Rightarrow> Return r)"

subsection \<open>The package html-entities\<close>

text \<open>
  \<open>encode\<close> with its default options replaces the five characters \<open>< > ' " &\<close> by named
  references. \<open>decode\<close> with its default options replaces what its regular expression
  matches: one of the references listed first in full, or \<open>&\<close> followed by a name that may
  stand without semicolon, by \<open>#\<close> and decimal digits, by \<open>#x\<close> and hexadecimal digits or
  by letters and digits, and an optional semicolon. The tables of HTML5 are taken as
  parameters.
\<close>

record html_tables =
  first_references :: "jsstring list"  \<comment> \<open>the references tried first, in order\<close>
  legacy_names :: "jsstring list"  \<comment> \<open>the names that may stand without semicolon, in order\<close>
  references :: "(jsstring \<times> jsstring) list"  \<comment> \<open>from a reference to its characters\<close>
  numeric_reference :: "jsstring \<Rightarrow> jsstring"  \<comment> \<open>the characters of \<open>&#...\<close>\<close>

definition html_encode :: "jsstring \<Rightarrow> jsstring" where
  "html_encode s =
     concat (map (\<lambda>c. if c = 0x3C then js ''&lt;''
                       else if c = 0x3E then js ''&gt;''
                       else if c = 0x27 then js ''&apos;''
                       else if c = 0x22 then js ''&quot;''
                       else if c = 0x26 then js ''&amp;''
                       else [c]) s)"

definition isAlphanumeric :: "jschar \<Rightarrow> bool" where
  "isAlphanumeric c = isRadixDigit 36 c"

definition startsWith :: "jsstring \<Rightarrow> jsstring \<Rightarrow> bool" where
  "startsWith s p = (take (length p) s = p)"

definition referenceBody :: "html_tables \<Rightarrow> jsstring \<Rightarrow> nat" where
  \<comment> \<open>the length of what the alternatives after \<open>&\<close> match at the start of \<open>r\<close>\<close>
  "referenceBody T r =
     (case find (startsWith r) (legacy_names T) of
        Some n \<Rightarrow> length n
      | None \<Rightarrow>
          if take 1 r = js ''#'' \<and> takeWhile isDigit (drop 1 r) \<noteq> []
          then 1 + length (takeWhile isDigit (drop 1 r))
          else if (take 2 r = js ''#x'' \<or> take 2 r = js ''#X'')
                  \<and> takeWhile (isRadixDigit 16) (drop 2 r) \<noteq> []
          then 2 + length (takeWhile (isRadixDigit 16) (drop 2 r))
          else length (takeWhile isAlphanumeric r))"

definition referenceLength :: "html_tables \<Rightarrow> jsstring \<Rightarrow> nat" where
  \<comment> \<open>the length of the match at the start of a text that begins with \<open>&\<close>; 0 is no match\<close>
  "referenceLength T t =
     (case find (startsWith t) (first_references T) of
        Some p \<Rightarrow> length p
      | None \<Rightarrow>
          let n = referenceBody T (drop 1 t)
          in if n = 0 then 0
             else 1 + n + (if take 1 (drop n (drop 1 t)) = js '';'' then 1 else 0))"

definition decodeReference :: "html_tables \<Rightarrow> jsstring \<Rightarrow> jsstring" where
  "decodeReference T e =
     (case map_of (references T) e of
        Some s \<Rightarrow> if s \<noteq> [] then s else if take 2 e = js ''&#'' then numeric_reference T e else e
      | None \<Rightarrow> if take 2 e = js ''&#'' then numeric_reference T e else e)"

fun html_decode :: "html_tables \<Rightarrow> jsstring \<Rightarrow> jsstring" where
  "html_decode T [] = []"
| "html_decode T (c # cs) =
     (if c = 0x26 \<and> referenceLength T (c # cs) \<noteq> 0
      then decodeReference T (take (referenceLength T (c # cs)) (c # cs))
           @ html_decode T (drop (referenceLength T (c # cs) - 1) cs)
      else c # html_decode T cs)"

text \<open>
  What reading back the output of \<open>encode\<close> needs of the tables.
\<close>

definition comparable :: "jsstring \<Rightarrow> jsstring \<Rightarrow> bool" where
  \<comment> \<open>one of the two texts is the start of the other\<close>
  "comparable p r = (take (length r) p = take (length p) r)"

definition written_references :: "(jsstring \<times> jschar) list" where
  \<comment> \<open>the names of the references that \<open>encode\<close> writes, and their characters\<close>
  "written_references =
     [(js ''lt'', 0x3C), (js ''gt'', 0x3E), (js ''apos'', 0x27), (js ''quot'', 0x22), (js ''amp'', 0x26)]"

definition reads_written_references :: "html_tables \<Rightarrow> bool" where
  \<comment> \<open>what the round trip needs of the tables of HTML5: a reference that \<open>encode\<close> writes
      stands for its character, it neither starts nor is the start of a reference tried
      first, and the only name without semicolon that its name with the semicolon starts
      with is its own\<close>
  "reads_written_references T =
     list_all (\<lambda>(n, c).
         map_of (references T) (js ''&'' @ n @ js '';'') = Some [c]
         \<and> list_all (\<lambda>p. \<not> comparable p (js ''&'' @ n @ js '';'')) (first_references T)
         \<and> list_all (\<lambda>m. comparable m (n @ js '';'') \<longrightarrow> m = n) (legacy_names T))
       written_references"

section \<open>JSON\<close>

datatype json =
    JNull
  | JBool bool
  | JNumber number
  | JString jsstring
  | JArray "json list"
  | JObject "(jsstring \<times> json) list"

subsection \<open>Objects\<close>

text \<open>
  The properties of an object are listed in property order: the array indices in
  ascending order first, then the other keys in the order of their creation. Defining a
  property that exists replaces its value where it stands.
\<close>

definition arrayIndex :: "jsstring \<Rightarrow> nat option" where
  \<comment> \<open>a canonical numeric string below \<open>2\<^sup>3\<^sup>2 - 1\<close>\<close>
  "arrayIndex k =
     (if k \<noteq> [] \<and> list_all isDigit k \<and> (k = js ''0'' \<or> take 1 k \<noteq> js ''0'')
         \<and> length k \<le> 10 \<and> mathInt 10 k < 4294967295
      then Some (mathInt 10 k) else None)"

fun insertIndex :: "nat \<Rightarrow> jsstring \<times> 'v \<Rightarrow> (jsstring \<times> 'v) list \<Rightarrow> (jsstring \<times> 'v) list" where
  "insertIndex i kv [] = [kv]"
| "insertIndex i kv (p # ps) =
     (case arrayIndex (fst p) of
        None \<Rightarrow> kv # p # ps
      | Some j \<Rightarrow> if j < i then p # insertIndex i kv ps else kv # p # ps)"

definition defineProperty :: "jsstring \<Rightarrow> 'v \<Rightarrow> (jsstring \<times> 'v) list \<Rightarrow> (jsstring \<times> 'v) list" where
  "defineProperty k v ps =
     (if map_of ps k \<noteq> None then map (\<lambda>p. if fst p = k then (k, v) else p) ps
      else case arrayIndex k of
             None \<Rightarrow> ps @ [(k, v)]
           | Some i \<Rightarrow> insertIndex i (k, v) ps)"

definition fromEntries :: "(jsstring \<times> 'v) list \<Rightarrow> (jsstring \<times> 'v) list" where
  \<comment> \<open>\<open>Object.fromEntries\<close>: the entries are defined one after the other\<close>
  "fromEntries es = foldl (\<lambda>ps e. defineProperty (fst e) (snd e) ps) [] es"

subsection \<open>\<open>JSON.parse\<close>\<close>

definition skip_ws :: "jsstring \<Rightarrow> jsstring" where
  "skip_ws cs = dropWhile (\<lambda>c. c = 0x9 \<or> c = 0xA \<or> c = 0xD \<or> c = 0x20) cs"

definition parse_number :: "jsstring \<Rightarrow> (number \<times> jsstring) option" where
  \<comment> \<open>\<open>-? (0 | [1-9][0-9]*) (. [0-9]+)? ([eE] [+-]? [0-9]+)?\<close>\<close>
  "parse_number cs =
     (let negative = (take 1 cs = js ''-'');
          c1 = (if negative then drop 1 cs else cs);
          ipart = (if take 1 c1 = js ''0'' then take 1 c1 else takeWhile isDigit c1);
          c2 = drop (length ipart) c1;
          hasFrac = (take 1 c2 = js ''.'');
          fpart = (if hasFrac then takeWhile isDigit (drop 1 c2) else []);
          c3 = (if hasFrac then drop (length fpart) (drop 1 c2) else c2);
          hasExp = (take 1 c3 = js ''e'' \<or> take 1 c3 = js ''E'');
          c4 = drop 1 c3;
          expNegative = (take 1 c4 = js ''-'');
          c5 = (if take 1 c4 = js ''+'' \<or> take 1 c4 = js ''-'' then drop 1 c4 else c4);
          epart = (if hasExp then takeWhile isDigit c5 else []);
          rest = (if hasExp then drop (length epart) c5 else c3);
          mv = (of_nat (mathInt 10 ipart) + of_nat (mathInt 10 fpart) / of_nat (10 ^ length fpart))
               * pow_int 10 ((if expNegative then - 1 else 1) * int (mathInt 10 epart))
      in if ipart = [] \<or> (hasFrac \<and> fpart = []) \<or> (hasExp \<and> epart = []) then None
         else Some (to_double (if negative then - mv else mv), rest))"

definition hex4 :: "jsstring \<Rightarrow> jschar option" where
  "hex4 cs =
     (case map hexValue (take 4 cs) of
        [Some a, Some b, Some c, Some d] \<Rightarrow> Some (of_nat (((a * 16 + b) * 16 + c) * 16 + d))
      | _ \<Rightarrow> None)"

definition unescape :: "jschar \<Rightarrow> jschar option" where
  \<comment> \<open>the character after a backslash: \<open>" \ / b f n r t\<close>\<close>
  "unescape e =
     (if e = 0x22 \<or> e = 0x5C \<or> e = 0x2F then Some e
      else if e = 0x62 then Some 0x8
      else if e = 0x66 then Some 0xC
      else if e = 0x6E then Some 0xA
      else if e = 0x72 then Some 0xD
      else if e = 0x74 then Some 0x9
      else None)"

fun parse_chars :: "jsstring \<Rightarrow> (jsstring \<times> jsstring) option" where
  \<comment> \<open>after the opening quote: the string read and the text after the closing quote\<close>
  "parse_chars [] = None"
| "parse_chars (c # cs) =
     (if c = 0x22 then Some ([], cs)
      else if c = 0x5C then
        (case cs of
           [] \<Rightarrow> None
         | e # r \<Rightarrow>
             if e = 0x75 then
               (case hex4 r of
                  None \<Rightarrow> None
                | Some u \<Rightarrow>
                    (case parse_chars (drop 4 r) of
                       None \<Rightarrow> None
                     | Some (s, rest) \<Rightarrow> Some (u # s, rest)))
             else
               (case unescape e of
                  None \<Rightarrow> None
                | Some u \<Rightarrow>
                    (case parse_chars r of
                       None \<Rightarrow> None
                     | Some (s, rest) \<Rightarrow> Some (u # s, rest))))
      else if c < 0x20 then None
      else (case parse_chars cs of None \<Rightarrow> None | Some (s, rest) \<Rightarrow> Some (c # s, rest)))"

text \<open>
  The values nest, so the parser counts its calls down from a bound. Each call reads at
  least one character of every two calls, and \<open>JSON_parse\<close> starts with more than twice
  the length of the text.
\<close>

datatype 'a parse = Parsed 'a jsstring | Malformed | OutOfFuel

fun parse_value :: "nat \<Rightarrow> jsstring \<Rightarrow> json parse"
  and parse_elements :: "nat \<Rightarrow> jsstring \<Rightarrow> json list parse"
  and parse_members :: "nat \<Rightarrow> jsstring \<Rightarrow> (jsstring \<times> json) list parse"
where
  "parse_value 0 cs = OutOfFuel"
| "parse_value (Suc n) cs =
     (case skip_ws cs of
        [] \<Rightarrow> Malformed
      | c # r \<Rightarrow>
          if c = 0x7B then
            (if take 1 (skip_ws r) = js ''}'' then Parsed (JObject []) (drop 1 (skip_ws r))
             else case parse_members n r of
                    Parsed ms rest \<Rightarrow> Parsed (JObject (fromEntries ms)) rest
                  | Malformed \<Rightarrow> Malformed
                  | OutOfFuel \<Rightarrow> OutOfFuel)
          else if c = 0x5B then
            (if take 1 (skip_ws r) = js '']'' then Parsed (JArray []) (drop 1 (skip_ws r))
             else case parse_elements n r of
                    Parsed vs rest \<Rightarrow> Parsed (JArray vs) rest
                  | Malformed \<Rightarrow> Malformed
                  | OutOfFuel \<Rightarrow> OutOfFuel)
          else if c = 0x22 then
            (case parse_chars r of None \<Rightarrow> Malformed | Some (s, rest) \<Rightarrow> Parsed (JString s) rest)
          else if take 4 (c # r) = js ''true'' then Parsed (JBool True) (drop 4 (c # r))
          else if take 5 (c # r) = js ''false'' then Parsed (JBool False) (drop 5 (c # r))
          else if take 4 (c # r) = js ''null'' then Parsed JNull (drop 4 (c # r))
          else
            (case parse_number (c # r) of
               None \<Rightarrow> Malformed
             | Some (x, rest) \<Rightarrow> Parsed (JNumber x) rest))"
| "parse_elements 0 cs = OutOfFuel"
| "parse_elements (Suc n) cs =
     (case parse_value n cs of
        Malformed \<Rightarrow> Malformed
      | OutOfFuel \<Rightarrow> OutOfFuel
      | Parsed v r \<Rightarrow>
          if take 1 (skip_ws r) = js '','' then
            (case parse_elements n (drop 1 (skip_ws r)) of
               Parsed vs rest \<Rightarrow> Parsed (v # vs) rest
             | Malformed \<Rightarrow> Malformed
             | OutOfFuel \<Rightarrow> OutOfFuel)
          else if take 1 (skip_ws r) = js '']'' then Parsed [v] (drop 1 (skip_ws r))
          else Malformed)"
| "parse_members 0 cs = OutOfFuel"
| "parse_members (Suc n) cs =
     (if take 1 (skip_ws cs) \<noteq> [0x22] then Malformed
      else case parse_chars (drop 1 (skip_ws cs)) of
        None \<Rightarrow> Malformed
      | Some (k, r0) \<Rightarrow>
          if take 1 (skip_ws r0) \<noteq> js '':'' then Malformed
          else case parse_value n (drop 1 (skip_ws r0)) of
            Malformed \<Rightarrow> Malformed
          | OutOfFuel \<Rightarrow> OutOfFuel
          | Parsed v r \<Rightarrow>
              if take 1 (skip_ws r) = js '','' then
                (case parse_members n (drop 1 (skip_ws r)) of
                   Parsed ms rest \<Rightarrow> Parsed ((k, v) # ms) rest
                 | Malformed \<Rightarrow> Malformed
                 | OutOfFuel \<Rightarrow> OutOfFuel)
              else if take 1 (skip_ws r) = js ''}'' then Parsed [(k, v)] (drop 1 (skip_ws r))
              else Malformed)"

definition JSON_parse :: "jsstring \<Rightarrow> json completion" where
  \<comment> \<open>a text that is not one JSON value is a SyntaxError\<close>
  "JSON_parse text =
     (case parse_value (Suc (Suc (length text + length text))) text of
        Parsed v rest \<Rightarrow> if skip_ws rest = [] then Return v else Throw SyntaxError
      | Malformed \<Rightarrow> Throw SyntaxError
      | OutOfFuel \<Rightarrow> Throw SyntaxError)"

subsection \<open>\<open>JSON.stringify\<close>\<close>

definition UnicodeEscape :: "nat \<Rightarrow> jsstring" where
  "UnicodeEscape cp =
     [0x5C, 0x75, digitChar (cp div 4096), digitChar (cp div 256 mod 16),
      digitChar (cp div 16 mod 16), digitChar (cp mod 16)]"

definition quoteCodePoint :: "nat \<Rightarrow> jsstring" where
  "quoteCodePoint cp =
     (if cp = 0x8 then [0x5C, 0x62]
      else if cp = 0x9 then [0x5C, 0x74]
      else if cp = 0xA then [0x5C, 0x6E]
      else if cp = 0xC then [0x5C, 0x66]
      else if cp = 0xD then [0x5C, 0x72]
      else if cp = 0x22 then [0x5C, 0x22]
      else if cp = 0x5C then [0x5C, 0x5C]
      else if cp < 0x20 \<or> isSurrogate cp then UnicodeEscape cp
      else codeUnits cp)"

definition QuoteJSONString :: "jsstring \<Rightarrow> jsstring" where
  "QuoteJSONString s = [0x22] @ concat (map quoteCodePoint (codePoints s)) @ [0x22]"

fun SerializeJSONProperty :: "jsstring \<Rightarrow> jsstring \<Rightarrow> json \<Rightarrow> jsstring"
  and SerializeJSONArray :: "jsstring \<Rightarrow> jsstring \<Rightarrow> json list \<Rightarrow> jsstring list"
  and SerializeJSONObject :: "jsstring \<Rightarrow> jsstring \<Rightarrow> (jsstring \<times> json) list \<Rightarrow> jsstring list"
where
  "SerializeJSONProperty gap indent JNull = js ''null''"
| "SerializeJSONProperty gap indent (JBool b) = (if b then js ''true'' else js ''false'')"
| "SerializeJSONProperty gap indent (JNumber x) =
     (case x of Num q \<Rightarrow> Number_toString x 10 | _ \<Rightarrow> js ''null'')"
| "SerializeJSONProperty gap indent (JString s) = QuoteJSONString s"
| "SerializeJSONProperty gap indent (JArray vs) =
     (if vs = [] then js ''[]''
      else if gap = [] then js ''['' @ join (js '','') (SerializeJSONArray gap (indent @ gap) vs) @ js '']''
      else js ''['' @ [0xA] @ indent @ gap
           @ join (js '','' @ [0xA] @ indent @ gap) (SerializeJSONArray gap (indent @ gap) vs)
           @ [0xA] @ indent @ js '']'')"
| "SerializeJSONProperty gap indent (JObject ps) =
     (if ps = [] then js ''{}''
      else if gap = [] then js ''{'' @ join (js '','') (SerializeJSONObject gap (indent @ gap) ps) @ js ''}''
      else js ''{'' @ [0xA] @ indent @ gap
           @ join (js '','' @ [0xA] @ indent @ gap) (SerializeJSONObject gap (indent @ gap) ps)
           @ [0xA] @ indent @ js ''}'')"
| "SerializeJSONArray gap indent [] = []"
| "SerializeJSONArray gap indent (v # vs) =
     SerializeJSONProperty gap indent v # SerializeJSONArray gap indent vs"
| "SerializeJSONObject gap indent [] = []"
| "SerializeJSONObject gap indent (p # ps) =
     (QuoteJSONString (fst p) @ js '':'' @ (if gap = [] then [] else js '' '')
      @ SerializeJSONProperty gap indent (snd p))
     # SerializeJSONObject gap indent ps"

definition JSON_stringify :: "json \<Rightarrow> nat \<Rightarrow> jsstring" where
  \<comment> \<open>\<open>JSON.stringify(value, null, space)\<close>\<close>
  "JSON_stringify v space = SerializeJSONProperty (replicate (min 10 space) 0x20) [] v"

section \<open>Dates\<close>

text \<open>
  A time value is a Number: \<open>NaN\<close> for an invalid date, or a whole number of milliseconds
  since the epoch of at most \<open>8.64 \<times> 10\<^sup>1\<^sup>5\<close> in magnitude.
\<close>

definition Number_times :: "number \<Rightarrow> rat \<Rightarrow> number" where
  \<comment> \<open>the product with a positive constant\<close>
  "Number_times x k = (case x of Num q \<Rightarrow> to_double (q * k) | _ \<Rightarrow> x)"

definition Number_divide :: "number \<Rightarrow> rat \<Rightarrow> number" where
  \<comment> \<open>the quotient by a positive constant\<close>
  "Number_divide x k = (case x of Num q \<Rightarrow> to_double (q / k) | _ \<Rightarrow> x)"

definition TimeClip :: "number \<Rightarrow> number" where
  "TimeClip t =
     (case t of
        Num q \<Rightarrow> if 8640000000000000 < \<bar>q\<bar> then NaN
                  else Num (of_int (if q < 0 then - \<lfloor>- q\<rfloor> else \<lfloor>q\<rfloor>))
      | _ \<Rightarrow> NaN)"

definition pad :: "nat \<Rightarrow> nat \<Rightarrow> jsstring" where
  "pad w n = replicate (w - length (radixDigits 10 n)) 0x30 @ radixDigits 10 n"

definition civil_from_days :: "int \<Rightarrow> int \<times> nat \<times> nat" where
  \<comment> \<open>year, month and day of the proleptic Gregorian calendar, from the days since
      1970-01-01\<close>
  "civil_from_days z0 =
     (let z = z0 + 719468;
          era = z div 146097;
          doe = z mod 146097;
          yoe = (doe - doe div 1460 + doe div 36524 - doe div 146096) div 365;
          doy = doe - (365 * yoe + yoe div 4 - yoe div 100);
          mp = (5 * doy + 2) div 153;
          d = doy - (153 * mp + 2) div 5 + 1;
          m = (if mp < 10 then mp + 3 else mp - 9);
          y = yoe + era * 400 + (if m \<le> 2 then 1 else 0)
      in (y, nat m, nat d))"

definition ISO_8601 :: "int \<Rightarrow> jsstring" where
  \<comment> \<open>\<open>YYYY-MM-DDTHH:mm:ss.sssZ\<close>, with a sign and six digits for a year outside
      0 to 9999\<close>
  "ISO_8601 t =
     (let (y, m, d) = civil_from_days (t div 86400000);
          ms = nat (t mod 86400000)
      in (if 0 \<le> y \<and> y \<le> 9999 then pad 4 (nat y)
          else (if y < 0 then js ''-'' else js ''+'') @ pad 6 (nat \<bar>y\<bar>))
         @ js ''-'' @ pad 2 m @ js ''-'' @ pad 2 d @ js ''T''
         @ pad 2 (ms div 3600000) @ js '':'' @ pad 2 (ms div 60000 mod 60) @ js '':''
         @ pad 2 (ms div 1000 mod 60) @ js ''.'' @ pad 3 (ms mod 1000) @ js ''Z'')"

definition toISOString :: "number \<Rightarrow> jsstring completion" where
  \<comment> \<open>of the Date with the given time value; an invalid date is a RangeError\<close>
  "toISOString t = (case t of Num q \<Rightarrow> Return (ISO_8601 \<lfloor>q\<rfloor>) | _ \<Rightarrow> Throw RangeError)"

section \<open>URLs\<close>

text \<open>
  The URL object that \<open>new URL\<close> returns: its string attributes, and the list of
  name-value pairs of its \<open>searchParams\<close>.
\<close>

record URL =
  href :: jsstring
  origin :: jsstring
  protocol :: jsstring
  username :: jsstring
  password :: jsstring
  host :: jsstring
  port :: jsstring
  hostname :: jsstring
  pathname :: jsstring
  search :: jsstring
  searchParams :: "(jsstring \<times> jsstring) list"
  hash :: jsstring

definition searchParams_keys :: "(jsstring \<times> jsstring) list \<Rightarrow> jsstring list" where
  "searchParams_keys ps = map fst ps"

definition searchParams_get :: "(jsstring \<times> jsstring) list \<Rightarrow> jsstring \<Rightarrow> jsstring option" where
  \<comment> \<open>the value of the first pair whose name is \<open>name\<close>, or \<open>null\<close>\<close>
  "searchParams_get ps name =
     (case find (\<lambda>p. fst p = name) ps of None \<Rightarrow> None | Some p \<Rightarrow> Some (snd p))"

definition searchParams_getAll :: "(jsstring \<times> jsstring) list \<Rightarrow> jsstring \<Rightarrow> jsstring list" where
  "searchParams_getAll ps name = map snd (filter (\<lambda>p. fst p = name) ps)"

section \<open>The platform\<close>

text \<open>
  What the manipulations call and what is not modelled above is a parameter: the module
  \<open>utils\<close> of the repository, whose source is not at hand, the case mappings of Unicode,
  the URL parser, the date parser, the conversion of a string to a Number, the digests,
  the package qs and the tables of html-entities.
\<close>

record platform =
  splitIntoWords :: "jsstring \<Rightarrow> jsstring list"
  getTimeDifference :: "number \<Rightarrow> number \<Rightarrow> jsstring option completion"
  toUpperCase :: "jsstring \<Rightarrow> jsstring"
  toLowerCase :: "jsstring \<Rightarrow> jsstring"
  new_URL :: "jsstring \<Rightarrow> URL option"  \<comment> \<open>\<open>None\<close> is the TypeError\<close>
  Date_parse :: "jsstring \<Rightarrow> number"  \<comment> \<open>the time value, \<open>NaN\<close> when unparseable\<close>
  StringToNumber :: "jsstring \<Rightarrow> number"
  digest :: "string \<Rightarrow> byte list \<Rightarrow> byte list"
  qs_stringify :: "json \<Rightarrow> jsstring completion"
  qs_parse :: "jsstring \<Rightarrow> json completion"
  html5 :: html_tables

section \<open>JSON Web Tokens\<close>

text \<open>
  \<^verbatim>\<open>/(eyJ[a-zA-Z0-9_-]+?\.eyJ[a-zA-Z0-9_-]+?\.[a-zA-Z0-9_-]*)/g\<close>

  A dot is not in the character class, so a segment \<^verbatim>\<open>eyJ[a-zA-Z0-9_-]+?\.\<close> is a
  whole run of characters of the class, starting with \<open>eyJ\<close> and at least four long,
  and the dot after it.
\<close>

definition isJwtChar :: "jschar \<Rightarrow> bool" where
  "isJwtChar c = (isAlphanumeric c \<or> c = 0x5F \<or> c = 0x2D)"

definition jwtSegment :: "jsstring \<Rightarrow> nat option" where
  \<comment> \<open>the length of a segment at the start of the text, its dot included\<close>
  "jwtSegment t =
     (let n = length (takeWhile isJwtChar t)
      in if take 3 t = js ''eyJ'' \<and> 4 \<le> n \<and> take 1 (drop n t) = js ''.'' then Some (n + 1) else None)"

definition jwtMatch :: "jsstring \<Rightarrow> nat option" where
  \<comment> \<open>the length of a match at the start of the text\<close>
  "jwtMatch t =
     (case jwtSegment t of
        None \<Rightarrow> None
      | Some a \<Rightarrow>
          (case jwtSegment (drop a t) of
             None \<Rightarrow> None
           | Some b \<Rightarrow> Some (a + b + length (takeWhile isJwtChar (drop (a + b) t)))))"

fun jwtMatches :: "jsstring \<Rightarrow> jsstring list" where
  \<comment> \<open>the matches from left to right; the search goes on after each match\<close>
  "jwtMatches [] = []"
| "jwtMatches (c # cs) =
     (case jwtMatch (c # cs) of
        None \<Rightarrow> jwtMatches cs
      | Some n \<Rightarrow> take n (c # cs) # jwtMatches (drop (n - 1) cs))"

fun split :: "jschar \<Rightarrow> jsstring \<Rightarrow> jsstring list" where
  \<comment> \<open>\<open>string.split(separator)\<close> for a separator of one character\<close>
  "split sep [] = [[]]"
| "split sep (c # cs) =
     (if c = sep then [] # split sep cs
      else case split sep cs of [] \<Rightarrow> [[c]] | w # ws \<Rightarrow> (c # w) # ws)"

subsection \<open>What the decoding does with a value\<close>

definition getProperty :: "json \<Rightarrow> jsstring \<Rightarrow> json option completion" where
  \<comment> \<open>\<open>payload.iat\<close>: \<open>None\<close> is \<open>undefined\<close>; reading a property of \<open>null\<close> is a TypeError\<close>
  "getProperty v k =
     (case v of
        JNull \<Rightarrow> Throw TypeError
      | JObject ps \<Rightarrow> Return (map_of ps k)
      | _ \<Rightarrow> Return None)"

definition truthy :: "json option \<Rightarrow> bool" where
  "truthy v =
     (case v of
        None \<Rightarrow> False
      | Some JNull \<Rightarrow> False
      | Some (JBool b) \<Rightarrow> b
      | Some (JNumber x) \<Rightarrow> x \<noteq> NaN \<and> x \<noteq> Num 0
      | Some (JString s) \<Rightarrow> s \<noteq> []
      | Some _ \<Rightarrow> True)"

fun ToString :: "json \<Rightarrow> jsstring"
  and ToString_elements :: "json list \<Rightarrow> jsstring list"
where
  "ToString JNull = js ''null''"
| "ToString (JBool b) = (if b then js ''true'' else js ''false'')"
| "ToString (JNumber x) = Number_toString x 10"
| "ToString (JString s) = s"
| "ToString (JArray vs) = join (js '','') (ToString_elements vs)"
| "ToString (JObject ps) = js ''[object Object]''"
| "ToString_elements [] = []"
| "ToString_elements (v # vs) = (if v = JNull then [] else ToString v) # ToString_elements vs"

definition ToNumber :: "(jsstring \<Rightarrow> number) \<Rightarrow> json \<Rightarrow> number" where
  \<comment> \<open>the first argument converts a string\<close>
  "ToNumber stringToNumber v =
     (case v of
        JNull \<Rightarrow> Num 0
      | JBool b \<Rightarrow> Num (if b then 1 else 0)
      | JNumber x \<Rightarrow> x
      | JString s \<Rightarrow> stringToNumber s
      | _ \<Rightarrow> stringToNumber (ToString v))"

section \<open>The manipulations\<close>

definition returning :: "jsstring completion \<Rightarrow> jsstring option completion" where
  "returning c = (case c of Throw e \<Rightarrow> Throw e | Return s \<Rightarrow> Return (Some s))"

definition Raw :: "jsstring \<Rightarrow> jsstring option completion" where
  "Raw text = Return (Some text)"

definition Hex_encoding :: "jsstring \<Rightarrow> jsstring option completion" where
  "Hex_encoding text = Return (Some (hex_encode (utf8_encode text)))"

definition Hex_decoding :: "jsstring \<Rightarrow> jsstring option completion" where
  "Hex_decoding text = Return (Some (utf8_decode (hex_decode text)))"

definition Base64_encoding :: "jsstring \<Rightarrow> jsstring option completion" where
  "Base64_encoding text = Return (Some (base64_encode (utf8_encode text)))"

definition Base64_decoding :: "jsstring \<Rightarrow> jsstring option completion" where
  "Base64_decoding text = Return (Some (utf8_decode (base64_decode text)))"

definition URL_encoding :: "jsstring \<Rightarrow> jsstring option completion" where
  "URL_encoding text = returning (encodeURIComponent text)"

definition URL_decoding :: "jsstring \<Rightarrow> jsstring option completion" where
  "URL_decoding text = returning (decodeURIComponent text)"

definition HTML_encoding :: "jsstring \<Rightarrow> jsstring option completion" where
  "HTML_encoding text = Return (Some (html_encode text))"

definition HTML_decoding :: "platform \<Rightarrow> jsstring \<Rightarrow> jsstring option completion" where
  "HTML_decoding P text = Return (Some (html_decode (html5 P) text))"

definition Parse_URL :: "platform \<Rightarrow> jsstring \<Rightarrow> jsstring option completion" where
  "Parse_URL P text =
     (case new_URL P (trim text) of
        None \<Rightarrow> Throw TypeError
      | Some url \<Rightarrow>
          let searchParamKeys = searchParams_keys (searchParams url)
          in Return (Some (JSON_stringify
               (JObject
                 [(js ''href'', JString (href url)),
                  (js ''origin'', JString (origin url)),
                  (js ''protocol'', JString (protocol url)),
                  (js ''username'', JString (username url)),
                  (js ''password'', JString (password url)),
                  (js ''host'', JString (host url)),
                  (js ''port'', JString (port url)),
                  (js ''hostname'', JString (hostname url)),
                  (js ''pathname'', JString (pathname url)),
                  (js ''search'', JString (search url)),
                  (js ''searchParams'',
                   JObject (fromEntries
                     (map (\<lambda>key. (key, case searchParams_get (searchParams url) key of
                                            None \<Rightarrow> JNull | Some v \<Rightarrow> JString v))
                        searchParamKeys))),
                  (js ''searchAllParams'',
                   JObject (fromEntries
                     (map (\<lambda>key. (key, JArray (map JString (searchParams_getAll (searchParams url) key))))
                        searchParamKeys))),
                  (js ''hash'', JString (hash url))])
               2)))"

definition Convert_UNIX_timestamp_sec_to_ISO_8601 :: "jsstring \<Rightarrow> jsstring option completion" where
  "Convert_UNIX_timestamp_sec_to_ISO_8601 text =
     (let timestamp = parseInt (trim text) 10
      in returning (toISOString (TimeClip (Number_times timestamp 1000))))"

definition Convert_ISO_8601_to_UNIX_timestamp_sec :: "platform \<Rightarrow> jsstring \<Rightarrow> jsstring option completion" where
  "Convert_ISO_8601_to_UNIX_timestamp_sec P text =
     (let time = Number_divide (Date_parse P (trim text)) 1000
      in if time = NaN then Return None else Return (Some (Number_toString time 10)))"

definition Convert_UNIX_timestamp_ms_to_ISO_8601 :: "jsstring \<Rightarrow> jsstring option completion" where
  "Convert_UNIX_timestamp_ms_to_ISO_8601 text =
     (let timestamp = parseInt (trim text) 10
      in returning (toISOString (TimeClip timestamp)))"

definition Convert_ISO_8601_to_UNIX_timestamp_ms :: "platform \<Rightarrow> jsstring \<Rightarrow> jsstring option completion" where
  "Convert_ISO_8601_to_UNIX_timestamp_ms P text =
     (let time = Date_parse P (trim text)
      in if time = NaN then Return None else Return (Some (Number_toString time 10)))"

definition Convert_duration_from_now :: "platform \<Rightarrow> int \<Rightarrow> jsstring \<Rightarrow> jsstring option completion" where
  \<comment> \<open>\<open>now\<close> is the time value of \<open>new Date()\<close>: the clock, read when the manipulation runs\<close>
  "Convert_duration_from_now P now text =
     getTimeDifference P (Num (of_int now)) (Date_parse P (trim text))"

definition Prettify_JSON :: "jsstring \<Rightarrow> jsstring option completion" where
  "Prettify_JSON text =
     (case JSON_parse text of Throw e \<Rightarrow> Throw e | Return v \<Rightarrow> Return (Some (JSON_stringify v 2)))"

definition Minify_JSON :: "jsstring \<Rightarrow> jsstring option completion" where
  "Minify_JSON text =
     (case JSON_parse text of Throw e \<Rightarrow> Throw e | Return v \<Rightarrow> Return (Some (JSON_stringify v 0)))"

definition Escape_as_JSON_string :: "jsstring \<Rightarrow> jsstring option completion" where
  "Escape_as_JSON_string text = Return (Some (JSON_stringify (JString text) 0))"

definition Convert_JSON_to_form :: "platform \<Rightarrow> jsstring \<Rightarrow> jsstring option completion" where
  "Convert_JSON_to_form P text =
     (case JSON_parse (trim text) of
        Throw e \<Rightarrow> Throw e
      | Return json \<Rightarrow> returning (qs_stringify P json))"

definition Convert_form_to_JSON :: "platform \<Rightarrow> jsstring \<Rightarrow> jsstring option completion" where
  "Convert_form_to_JSON P text =
     (case qs_parse P (trim text) of
        Throw e \<Rightarrow> Throw e
      | Return obj \<Rightarrow> Return (Some (JSON_stringify obj 2)))"

definition Extract_JWT :: "jsstring \<Rightarrow> jsstring option completion" where
  "Extract_JWT text =
     (case jwtMatches text of
        [] \<Rightarrow> Return None
      | m # ms \<Rightarrow> Return (Some (join [0xA] (m # ms))))"

definition iso8601_claim :: "platform \<Rightarrow> json \<Rightarrow> jsstring \<Rightarrow> json option completion" where
  \<comment> \<open>\<^verbatim>\<open>payload.iat ? new Date(payload.iat * 1000).toISOString() : undefined\<close>\<close>
  "iso8601_claim P payload k =
     (case getProperty payload k of
        Throw e \<Rightarrow> Throw e
      | Return v \<Rightarrow>
          if truthy v then
            (case v of
               None \<Rightarrow> Return None
             | Some x \<Rightarrow>
                 (case toISOString (TimeClip (Number_times (ToNumber (StringToNumber P) x) 1000)) of
                    Throw e \<Rightarrow> Throw e
                  | Return s \<Rightarrow> Return (Some (JString s))))
          else Return None)"

definition property :: "jsstring \<Rightarrow> json option \<Rightarrow> (jsstring \<times> json) list" where
  \<comment> \<open>a property of an object literal; \<open>JSON.stringify\<close> leaves out one that is \<open>undefined\<close>\<close>
  "property k v = (case v of None \<Rightarrow> [] | Some x \<Rightarrow> [(k, x)])"

definition decode_jwt :: "platform \<Rightarrow> jsstring \<Rightarrow> jsstring completion" where
  \<comment> \<open>the function mapped over the matches\<close>
  "decode_jwt P jwt =
     (let parts = split 0x2E jwt
      in if length parts \<noteq> 3 then Return jwt
         else
           case JSON_parse (utf8_decode (base64_decode (parts ! 0))) of
             Throw e \<Rightarrow> Throw e
           | Return header \<Rightarrow>
           case JSON_parse (utf8_decode (base64_decode (parts ! 1))) of
             Throw e \<Rightarrow> Throw e
           | Return payload \<Rightarrow>
           case iso8601_claim P payload (js ''iat'') of
             Throw e \<Rightarrow> Throw e
           | Return iat_iso8601 \<Rightarrow>
           case iso8601_claim P payload (js ''nbf'') of
             Throw e \<Rightarrow> Throw e
           | Return nbf_iso8601 \<Rightarrow>
           case iso8601_claim P payload (js ''exp'') of
             Throw e \<Rightarrow> Throw e
           | Return exp_iso8601 \<Rightarrow>
               Return (JSON_stringify
                 (JObject ([(js ''header'', header), (js ''payload'', payload)]
                           @ property (js ''iat_iso8601'') iat_iso8601
                           @ property (js ''nbf_iso8601'') nbf_iso8601
                           @ property (js ''exp_iso8601'') exp_iso8601
                           @ [(js ''signature'', JString (parts ! 2))]))
                 2))"

fun mapM :: "('a \<Rightarrow> 'b completion) \<Rightarrow> 'a list \<Rightarrow> 'b list completion" where
  \<comment> \<open>\<open>array.map(f)\<close> for an \<open>f\<close> that may throw: the first exception ends the loop\<close>
  "mapM f [] = Return []"
| "mapM f (x # xs) =
     (case f x of
        Throw e \<Rightarrow> Throw e
      | Return y \<Rightarrow> (case mapM f xs of Throw e \<Rightarrow> Throw e | Return ys \<Rightarrow> Return (y # ys)))"

definition Extract_and_Decode_JWT :: "platform \<Rightarrow> jsstring \<Rightarrow> jsstring option completion" where
  "Extract_and_Decode_JWT P text =
     (case mapM (decode_jwt P) (jwtMatches text) of
        Throw e \<Rightarrow> Throw e
      | Return rs \<Rightarrow> Return (Some (join [0xA] rs)))"

definition Calculate_md5 :: "platform \<Rightarrow> jsstring \<Rightarrow> jsstring option completion" where
  "Calculate_md5 P text = Return (Some (hex_encode (digest P ''md5'' (utf8_encode text))))"

definition Calculate_sha1 :: "platform \<Rightarrow> jsstring \<Rightarrow> jsstring option completion" where
  "Calculate_sha1 P text = Return (Some (hex_encode (digest P ''sha1'' (utf8_encode text))))"

definition Calculate_sha256 :: "platform \<Rightarrow> jsstring \<Rightarrow> jsstring option completion" where
  "Calculate_sha256 P text = Return (Some (hex_encode (digest P ''sha256'' (utf8_encode text))))"

subsection \<open>Words\<close>

definition capitalize :: "platform \<Rightarrow> jsstring \<Rightarrow> jsstring completion" where
  \<comment> \<open>\<^verbatim>\<open>word[0].toUpperCase() + word.slice(1)\<close>: \<open>word[0]\<close> of an empty word is
      \<open>undefined\<close>, and the call on it a TypeError\<close>
  "capitalize P word =
     (case word of [] \<Rightarrow> Throw TypeError | c # cs \<Rightarrow> Return (toUpperCase P [c] @ cs))"

definition mapM_index :: "('a \<Rightarrow> nat \<Rightarrow> 'b completion) \<Rightarrow> 'a list \<Rightarrow> 'b list completion" where
  \<comment> \<open>\<open>array.map((word, index) => ...)\<close>\<close>
  "mapM_index f xs = mapM (\<lambda>p. f (fst p) (snd p)) (zip xs [0..<length xs])"

definition joined :: "jsstring \<Rightarrow> jsstring list completion \<Rightarrow> jsstring option completion" where
  "joined sep c = (case c of Throw e \<Rightarrow> Throw e | Return ws \<Rightarrow> Return (Some (join sep ws)))"

definition Convert_camelCase :: "platform \<Rightarrow> jsstring \<Rightarrow> jsstring option completion" where
  "Convert_camelCase P text =
     (let words = splitIntoWords P (trim text)
      in joined [] (mapM_index (\<lambda>word index. if index = 0 then Return word else capitalize P word) words))"

definition Convert_PascalCase :: "platform \<Rightarrow> jsstring \<Rightarrow> jsstring option completion" where
  "Convert_PascalCase P text =
     (let words = splitIntoWords P (trim text) in joined [] (mapM (capitalize P) words))"

definition Convert_lower_kebab_case :: "platform \<Rightarrow> jsstring \<Rightarrow> jsstring option completion" where
  "Convert_lower_kebab_case P text =
     (let words = splitIntoWords P (trim text)
      in Return (Some (join (js ''-'') (map (toLowerCase P) words))))"

definition Convert_UPPER_KEBAB_CASE :: "platform \<Rightarrow> jsstring \<Rightarrow> jsstring option completion" where
  "Convert_UPPER_KEBAB_CASE P text =
     (let words = splitIntoWords P (trim text)
      in Return (Some (join (js ''-'') (map (toUpperCase P) words))))"

definition Convert_lower_snake_case :: "platform \<Rightarrow> jsstring \<Rightarrow> jsstring option completion" where
  "Convert_lower_snake_case P text =
     (let words = splitIntoWords P (trim text)
      in Return (Some (join (js ''_'') (map (toLowerCase P) words))))"

definition Convert_UPPER_SNAKE_CASE :: "platform \<Rightarrow> jsstring \<Rightarrow> jsstring option completion" where
  "Convert_UPPER_SNAKE_CASE P text =
     (let words = splitIntoWords P (trim text)
      in Return (Some (join (js ''_'') (map (toUpperCase P) words))))"

definition Convert_dot_case :: "platform \<Rightarrow> jsstring \<Rightarrow> jsstring option completion" where
  "Convert_dot_case P text =
     (let words = splitIntoWords P (trim text)
      in Return (Some (join (js ''.'') (map (toLowerCase P) words))))"

definition Convert_lowercase :: "platform \<Rightarrow> jsstring \<Rightarrow> jsstring option completion" where
  "Convert_lowercase P text = Return (Some (toLowerCase P text))"

definition Convert_UPPERCASE :: "platform \<Rightarrow> jsstring \<Rightarrow> jsstring option completion" where
  "Convert_UPPERCASE P text = Return (Some (toUpperCase P text))"

definition Convert_words_lowercase :: "platform \<Rightarrow> jsstring \<Rightarrow> jsstring option completion" where
  "Convert_words_lowercase P text =
     (let words = splitIntoWords P (trim text)
      in Return (Some (join (js '' '') (map (toLowerCase P) words))))"

definition Convert_First_word_capitalized :: "platform \<Rightarrow> jsstring \<Rightarrow> jsstring option completion" where
  "Convert_First_word_capitalized P text =
     (let words = splitIntoWords P (trim text)
      in joined (js '' '')
           (mapM_index (\<lambda>word index. if index = 0 then capitalize P word else Return word) words))"

definition Convert_Words_Capitalized :: "platform \<Rightarrow> jsstring \<Rightarrow> jsstring option completion" where
  "Convert_Words_Capitalized P text =
     (let words = splitIntoWords P (trim text) in joined (js '' '') (mapM (capitalize P) words))"

definition Generate_fuzzy_search_regex :: "platform \<Rightarrow> jsstring \<Rightarrow> jsstring option completion" where
  "Generate_fuzzy_search_regex P text =
     (let words = splitIntoWords P (trim text) in Return (Some (join (js ''.*'') words)))"

subsection \<open>Bases\<close>

definition replaceAll_spaces :: "jsstring \<Rightarrow> jsstring" where
  \<comment> \<open>\<open>.replaceAll(" ", "")\<close>\<close>
  "replaceAll_spaces s = filter (\<lambda>c. c \<noteq> 0x20) s"

definition Hex_to_Decimal :: "jsstring \<Rightarrow> jsstring option completion" where
  "Hex_to_Decimal text =
     (let n = parseInt (trim text) 16
      in if n = NaN then Return (Some []) else Return (Some (Number_toString n 10)))"

definition Decimal_to_Hex :: "jsstring \<Rightarrow> jsstring option completion" where
  "Decimal_to_Hex text =
     (let n = parseInt (trim text) 10
      in if n = NaN then Return (Some []) else Return (Some (Number_toString n 16)))"

definition Binary_to_Hex :: "jsstring \<Rightarrow> jsstring option completion" where
  "Binary_to_Hex text =
     (let n = parseInt (replaceAll_spaces (trim text)) 2
      in if n = NaN then Return (Some []) else Return (Some (Number_toString n 16)))"

definition Binary_to_Decimal :: "jsstring \<Rightarrow> jsstring option completion" where
  "Binary_to_Decimal text =
     (let n = parseInt (replaceAll_spaces (trim text)) 2
      in if n = NaN then Return (Some []) else Return (Some (Number_toString n 10)))"

subsection \<open>Binary output\<close>

text \<open>
  \<^verbatim>\<open>[...new Array(text.length / 8)].map((_, i) => text.slice(i * 8, (i + 1) * 8)).join(" ")\<close>

  \<open>text.length / 8\<close> is a Number; \<open>new Array(len)\<close> throws a RangeError unless \<open>len\<close>
  is an integer below \<open>2\<^sup>3\<^sup>2\<close>, so the quotient has to be whole.
\<close>

definition new_Array :: "nat \<Rightarrow> nat \<Rightarrow> nat completion" where
  \<comment> \<open>\<open>new Array(a / b)\<close>: the length of the array created\<close>
  "new_Array a b = (if b dvd a \<and> a div b < 2 ^ 32 then Return (a div b) else Throw RangeError)"

definition formatBinaryNumber :: "jsstring \<Rightarrow> jsstring completion" where
  "formatBinaryNumber text =
     (case new_Array (length text) 8 of
        Throw e \<Rightarrow> Throw e
      | Return n \<Rightarrow> Return (join (js '' '') (map (\<lambda>i. slice text (i * 8) ((i + 1) * 8)) [0..<n])))"

definition Hex_to_Binary :: "jsstring \<Rightarrow> jsstring option completion" where
  "Hex_to_Binary text =
     (let n = parseInt (trim text) 16
      in if n = NaN then Return (Some []) else returning (formatBinaryNumber (Number_toString n 2)))"

definition Decimal_to_Binary :: "jsstring \<Rightarrow> jsstring option completion" where
  "Decimal_to_Binary text =
     (let n = parseInt (trim text) 10
      in if n = NaN then Return (Some []) else returning (formatBinaryNumber (Number_toString n 2)))"

section \<open>The catalog and the runner\<close>

record Manipulation =
  key :: string
  manipulation :: "jsstring \<Rightarrow> jsstring option completion"

definition manipulations :: "platform \<Rightarrow> int \<Rightarrow> Manipulation list" where
  "manipulations P now =
     [\<lparr>key = ''Raw'', manipulation = Raw\<rparr>,
      \<lparr>key = ''Hex encoding'', manipulation = Hex_encoding\<rparr>,
      \<lparr>key = ''Hex decoding'', manipulation = Hex_decoding\<rparr>,
      \<lparr>key = ''Base64 encoding'', manipulation = Base64_encoding\<rparr>,
      \<lparr>key = ''Base64 decoding'', manipulation = Base64_decoding\<rparr>,
      \<lparr>key = ''URL encoding'', manipulation = URL_encoding\<rparr>,
      \<lparr>key = ''URL decoding'', manipulation = URL_decoding\<rparr>,
      \<lparr>key = ''HTML encoding'', manipulation = HTML_encoding\<rparr>,
      \<lparr>key = ''HTML decoding'', manipulation = HTML_decoding P\<rparr>,
      \<lparr>key = ''Parse URL'', manipulation = Parse_URL P\<rparr>,
      \<lparr>key = ''Convert UNIX timestamp (sec) to ISO 8601'',
       manipulation = Convert_UNIX_timestamp_sec_to_ISO_8601\<rparr>,
      \<lparr>key = ''Convert ISO 8601 to UNIX timestamp (sec)'',
       manipulation = Convert_ISO_8601_to_UNIX_timestamp_sec P\<rparr>,
      \<lparr>key = ''Convert UNIX timestamp (ms) to ISO 8601'',
       manipulation = Convert_UNIX_timestamp_ms_to_ISO_8601\<rparr>,
      \<lparr>key = ''Convert ISO 8601 to UNIX timestamp (ms)'',
       manipulation = Convert_ISO_8601_to_UNIX_timestamp_ms P\<rparr>,
      \<lparr>key = ''Convert duration from now'', manipulation = Convert_duration_from_now P now\<rparr>,
      \<lparr>key = ''Prettify JSON'', manipulation = Prettify_JSON\<rparr>,
      \<lparr>key = ''Minify JSON'', manipulation = Minify_JSON\<rparr>,
      \<lparr>key = ''Escape as JSON string'', manipulation = Escape_as_JSON_string\<rparr>,
      \<lparr>key = ''Convert JSON to form'', manipulation = Convert_JSON_to_form P\<rparr>,
      \<lparr>key = ''Convert form to JSON'', manipulation = Convert_form_to_JSON P\<rparr>,
      \<lparr>key = ''Extract JWT'', manipulation = Extract_JWT\<rparr>,
      \<lparr>key = ''Extract and Decode JWT'', manipulation = Extract_and_Decode_JWT P\<rparr>,
      \<lparr>key = ''Calculate md5'', manipulation = Calculate_md5 P\<rparr>,
      \<lparr>key = ''Calculate sha1'', manipulation = Calculate_sha1 P\<rparr>,
      \<lparr>key = ''Calculate sha256'', manipulation = Calculate_sha256 P\<rparr>,
      \<lparr>key = ''Convert camelCase'', manipulation = Convert_camelCase P\<rparr>,
      \<lparr>key = ''Convert PascalCase'', manipulation = Convert_PascalCase P\<rparr>,
      \<lparr>key = ''Convert lower-kebab-case'', manipulation = Convert_lower_kebab_case P\<rparr>,
      \<lparr>key = ''Convert UPPER-KEBAB-CASE'', manipulation = Convert_UPPER_KEBAB_CASE P\<rparr>,
      \<lparr>key = ''Convert lower_snake_case'', manipulation = Convert_lower_snake_case P\<rparr>,
      \<lparr>key = ''Convert UPPER_SNAKE_CASE'', manipulation = Convert_UPPER_SNAKE_CASE P\<rparr>,
      \<lparr>key = ''Convert dot.case'', manipulation = Convert_dot_case P\<rparr>,
      \<lparr>key = ''Convert lowercase'', manipulation = Convert_lowercase P\<rparr>,
      \<lparr>key = ''Convert UPPERCASE'', manipulation = Convert_UPPERCASE P\<rparr>,
      \<lparr>key = ''Convert words lowercase'', manipulation = Convert_words_lowercase P\<rparr>,
      \<lparr>key = ''Convert First word capitalized'', manipulation = Convert_First_word_capitalized P\<rparr>,
      \<lparr>key = ''Convert Words Capitalized'', manipulation = Convert_Words_Capitalized P\<rparr>,
      \<lparr>key = ''Generate fuzzy search regex'', manipulation = Generate_fuzzy_search_regex P\<rparr>,
      \<lparr>key = ''Hex(16) to Decimal(10)'', manipulation = Hex_to_Decimal\<rparr>,
      \<lparr>key = ''Hex(16) to Binary(2)'', manipulation = Hex_to_Binary\<rparr>,
      \<lparr>key = ''Decimal(10) to Hex(16)'', manipulation = Decimal_to_Hex\<rparr>,
      \<lparr>key = ''Decimal(10) to Binary(2)'', manipulation = Decimal_to_Binary\<rparr>,
      \<lparr>key = ''Binary(2) to Hex(16)'', manipulation = Binary_to_Hex\<rparr>,
      \<lparr>key = ''Binary(2) to Decimal(10)'', manipulation = Binary_to_Decimal\<rparr>]"

text \<open>
  The runner returns an array of \<open>{ key, value }\<close>, here a list of pairs. What a
  manipulation throws is caught, and \<open>null\<close> becomes the empty string.
\<close>

definition caught :: "jsstring option completion \<Rightarrow> jsstring option" where
  \<comment> \<open>\<^verbatim>\<open>try { value = converter.manipulation(string); } catch (error) { value = null; }\<close>\<close>
  "caught c = (case c of Return v \<Rightarrow> v | Throw e \<Rightarrow> None)"

definition null_coalesce_empty :: "jsstring option \<Rightarrow> jsstring" where
  \<comment> \<open>\<open>value ?? ""\<close>\<close>
  "null_coalesce_empty v = (case v of None \<Rightarrow> [] | Some s \<Rightarrow> s)"

definition manipulateString :: "platform \<Rightarrow> int \<Rightarrow> jsstring \<Rightarrow> (string \<times> jsstring) list" where
  "manipulateString P now string =
     map (\<lambda>converter. (key converter, null_coalesce_empty (caught (manipulation converter string))))
       (manipulations P now)"

section \<open>A platform for the examples\<close>

text \<open>
  The examples are evaluated on a small platform: its words and time differences follow
  the specification's description of \<open>utils\<close>, its case mappings cover the ASCII letters,
  its date parser reads the format that \<open>toISOString\<close> writes, its URL parser reads
  \<open>http\<close> and \<open>https\<close> URLs of plain characters, its tables of html-entities hold the
  references that \<open>encode\<close> writes, and what no example reaches is left trivial. Every
  statement about a platform \<open>P\<close> holds for all platforms.
\<close>

definition isUpper :: "jschar \<Rightarrow> bool" where
  "isUpper c = (0x41 \<le> c \<and> c \<le> 0x5A)"

definition isLower :: "jschar \<Rightarrow> bool" where
  "isLower c = (0x61 \<le> c \<and> c \<le> 0x7A)"

definition ascii_toUpperCase :: "jsstring \<Rightarrow> jsstring" where
  "ascii_toUpperCase s = map (\<lambda>c. if isLower c then c - 32 else c) s"

definition ascii_toLowerCase :: "jsstring \<Rightarrow> jsstring" where
  "ascii_toLowerCase s = map (\<lambda>c. if isUpper c then c + 32 else c) s"

text \<open>
  Modelled from the spec: \<open>splitIntoWords\<close> of \<open>utils.ts\<close>, which is not among the
  sources. The specification has it split at runs of whitespace and punctuation, at a
  lowercase letter followed by an uppercase one, between digits and letters, and before
  the last letter of a run of uppercase letters that a lowercase letter follows
  (\<open>HTTPServer\<close> gives \<open>HTTP\<close> and \<open>Server\<close>); the tokens are not empty.
\<close>

definition word_boundary :: "jschar \<Rightarrow> jschar \<Rightarrow> jsstring \<Rightarrow> bool" where
  \<comment> \<open>between the character \<open>p\<close> and the next character \<open>c\<close>, which \<open>rest\<close> follows\<close>
  "word_boundary p c rest =
     ((isLower p \<and> isUpper c)
      \<or> (isDigit p \<and> \<not> isDigit c)
      \<or> (\<not> isDigit p \<and> isDigit c)
      \<or> (isUpper p \<and> isUpper c \<and> (case rest of [] \<Rightarrow> False | n # _ \<Rightarrow> isLower n)))"

fun split_words :: "jsstring \<Rightarrow> jsstring \<Rightarrow> jsstring list" where
  \<comment> \<open>the first argument is the token being read, its last character first\<close>
  "split_words cur [] = (if cur = [] then [] else [rev cur])"
| "split_words cur (c # cs) =
     (if \<not> isAlphanumeric c then (if cur = [] then [] else [rev cur]) @ split_words [] cs
      else case cur of
             [] \<Rightarrow> split_words [c] cs
           | p # _ \<Rightarrow> if word_boundary p c cs then rev cur # split_words [c] cs
                      else split_words (c # cur) cs)"

definition splitIntoWords_spec :: "jsstring \<Rightarrow> jsstring list" where
  "splitIntoWords_spec t = split_words [] t"

text \<open>
  Modelled from the spec: \<open>getTimeDifference\<close> of \<open>utils.ts\<close>, which is not among the
  sources. The specification has it compute the elapsed or remaining time between the
  current instant and the date, humanized; here that is the difference in its largest
  whole unit among days, hours, minutes and seconds, and its direction.
\<close>

definition humanize :: "nat \<Rightarrow> jsstring" where
  \<comment> \<open>of a number of seconds\<close>
  "humanize a =
     (let (n, unit) =
            (if 86400 \<le> a then (a div 86400, js ''day'')
             else if 3600 \<le> a then (a div 3600, js ''hour'')
             else if 60 \<le> a then (a div 60, js ''minute'')
             else (a, js ''second''))
      in radixDigits 10 n @ js '' '' @ unit @ (if n = 1 then [] else js ''s''))"

definition getTimeDifference_spec :: "number \<Rightarrow> number \<Rightarrow> jsstring option completion" where
  "getTimeDifference_spec now date =
     (case (now, date) of
        (Num n, Num d) \<Rightarrow>
          Return (Some (humanize (nat (\<bar>\<lfloor>d\<rfloor> - \<lfloor>n\<rfloor>\<bar> div 1000))
                        @ (if d < n then js '' ago'' else js '' from now'')))
      | _ \<Rightarrow> Return None)"

definition days_from_civil :: "int \<Rightarrow> int \<Rightarrow> int \<Rightarrow> int" where
  "days_from_civil y m d =
     (let y' = (if m \<le> 2 then y - 1 else y);
          era = y' div 400;
          yoe = y' mod 400;
          doy = (153 * (if 2 < m then m - 3 else m + 9) + 2) div 5 + d - 1;
          doe = yoe * 365 + yoe div 4 - yoe div 100 + doy
      in era * 146097 + doe - 719468)"

definition parse_ISO_8601 :: "jsstring \<Rightarrow> number" where
  \<comment> \<open>\<open>YYYY-MM-DDTHH:mm:ss.sssZ\<close> and nothing else\<close>
  "parse_ISO_8601 t =
     (let field = (\<lambda>a n. int (mathInt 10 (take n (drop a t))));
          digits = (\<lambda>a n. list_all isDigit (take n (drop a t)))
      in if length t = 24 \<and> digits 0 4 \<and> digits 5 2 \<and> digits 8 2 \<and> digits 11 2 \<and> digits 14 2
            \<and> digits 17 2 \<and> digits 20 3
            \<and> map (\<lambda>i. t ! i) [4, 7, 10, 13, 16, 19, 23] = js ''--T::.Z''
            \<and> 1 \<le> field 5 2 \<and> field 5 2 \<le> 12 \<and> 1 \<le> field 8 2 \<and> field 8 2 \<le> 31
            \<and> field 11 2 \<le> 23 \<and> field 14 2 \<le> 59 \<and> field 17 2 \<le> 59
         then Num (of_int (days_from_civil (field 0 4) (field 5 2) (field 8 2) * 86400000
                           + field 11 2 * 3600000 + field 14 2 * 60000 + field 17 2 * 1000
                           + field 20 3))
         else NaN)"

definition query_pair :: "jsstring \<Rightarrow> jsstring \<times> jsstring" where
  \<comment> \<open>a name and a value, at the first \<open>=\<close>\<close>
  "query_pair s = (takeWhile (\<lambda>c. c \<noteq> 0x3D) s, drop 1 (dropWhile (\<lambda>c. c \<noteq> 0x3D) s))"

definition plain_URL :: "jsstring \<Rightarrow> URL option" where
  \<comment> \<open>\<open>http://host/path?query#fragment\<close> or \<open>https://...\<close>, of letters, digits and
      \<open>- . _ ~ / = &\<close>, with a host that is not empty\<close>
  "plain_URL t =
     (let scheme = takeWhile (\<lambda>c. c \<noteq> 0x3A) t;
          after = drop (length scheme + 3) t;
          h = takeWhile (\<lambda>c. c \<noteq> 0x2F \<and> c \<noteq> 0x3F \<and> c \<noteq> 0x23) after;
          r1 = drop (length h) after;
          path = takeWhile (\<lambda>c. c \<noteq> 0x3F \<and> c \<noteq> 0x23) r1;
          r2 = drop (length path) r1;
          query = takeWhile (\<lambda>c. c \<noteq> 0x23) (drop 1 r2);
          fragment = drop 1 (dropWhile (\<lambda>c. c \<noteq> 0x23) r2);
          pathname' = (if path = [] then js ''/'' else path);
          search' = (if query = [] then [] else js ''?'' @ query);
          hash' = (if fragment = [] then [] else js ''#'' @ fragment)
      in if (scheme = js ''http'' \<or> scheme = js ''https'')
            \<and> take 3 (drop (length scheme) t) = js ''://''
            \<and> h \<noteq> [] \<and> list_all (\<lambda>c. isLower c \<or> isDigit c \<or> c = 0x2D \<or> c = 0x2E) h
            \<and> list_all (\<lambda>c. isAlphanumeric c \<or> c = 0x2D \<or> c = 0x2E \<or> c = 0x5F \<or> c = 0x7E \<or> c = 0x2F
                             \<or> c = 0x3D \<or> c = 0x26) (path @ query @ fragment)
         then Some \<lparr>href = scheme @ js ''://'' @ h @ pathname' @ search' @ hash',
                    origin = scheme @ js ''://'' @ h,
                    protocol = scheme @ js '':'',
                    username = [],
                    password = [],
                    host = h,
                    port = [],
                    hostname = h,
                    pathname = pathname',
                    search = search',
                    searchParams = map query_pair (filter (\<lambda>s. s \<noteq> []) (split 0x26 query)),
                    hash = hash'\<rparr>
         else None)"

definition example_tables :: html_tables where
  "example_tables =
     \<lparr>first_references = [],
      legacy_names = [js ''amp'', js ''gt'', js ''lt'', js ''quot''],
      references =
        [(js ''&amp;'', js ''&''), (js ''&amp'', js ''&''), (js ''&gt;'', js ''>''), (js ''&gt'', js ''>''),
         (js ''&lt;'', js ''<''), (js ''&lt'', js ''<''), (js ''&quot;'', [0x22]), (js ''&quot'', [0x22]),
         (js ''&apos;'', [0x27])],
      numeric_reference = (\<lambda>e. e)\<rparr>"

definition example_platform :: platform where
  "example_platform =
     \<lparr>splitIntoWords = splitIntoWords_spec,
      getTimeDifference = getTimeDifference_spec,
      toUpperCase = ascii_toUpperCase,
      toLowerCase = ascii_toLowerCase,
      new_URL = plain_URL,
      Date_parse = parse_ISO_8601,
      StringToNumber = (\<lambda>s. NaN),
      digest = (\<lambda>algorithm bytes. []),
      qs_stringify = (\<lambda>v. Return []),
      qs_parse = (\<lambda>s. Return (JObject [])),
      html5 = example_tables\<rparr>"

section \<open>Properties\<close>

subsection \<open>The value of an entry\<close>

lemma map_of_keyed:
  "map_of (map (\<lambda>c. (key c, f c)) ms) k = map_option f (find (\<lambda>m. key m = k) ms)"
  by (induction ms) auto

lemma value_of_key:
  "map_of (manipulateString P now x) k =
     map_option (\<lambda>m. null_coalesce_empty (caught (manipulation m x)))
       (find (\<lambda>m. key m = k) (manipulations P now))"
  by (simp add: manipulateString_def map_of_keyed)

subsection \<open>Binary output\<close>

lemma formatBinaryNumber_throws:
  "(formatBinaryNumber text = Throw RangeError) = (length text mod 8 \<noteq> 0 \<or> 2 ^ 32 \<le> length text div 8)"
  by (auto simp: formatBinaryNumber_def new_Array_def dvd_eq_mod_eq_0)

subsection \<open>Decoding never fails\<close>

lemma codeUnits_not_Nil [simp]: "codeUnits cp \<noteq> []"
  by (simp add: codeUnits_def)

lemma utf8_decode_Nil_iff: "(utf8_decode bs = []) = (bs = [])"
  by (cases bs) (simp_all split: list.split)

lemma hex_decode_Nil_iff:
  "(hex_decode s = []) =
     (case s of a # b # _ \<Rightarrow> hexValue (lowByte a) = None \<or> hexValue (lowByte b) = None | _ \<Rightarrow> True)"
  by (cases s rule: hex_decode.cases) (auto split: option.split)

lemma base64_ungroup_Nil_iff: "(base64_ungroup xs = []) = (length xs < 2)"
  by (cases xs rule: base64_ungroup.cases) auto

lemmas number_eval =
  Let_def js_def trim_def trimStart_def isWhiteSpace_def parseInt_def isRadixDigit_def digitValue_def
  mathInt_def Number_of_int_def round_to_double_def Number_toString_def exactString_def digitChar_def

lemmas binary_eval =
  formatBinaryNumber_def new_Array_def returning_def join_def slice_def
  Decimal_to_Binary_def Hex_to_Binary_def

text \<open>
  C3. The binary digits are cut into windows of eight characters, and a digit string
  whose length is not a multiple of eight should end in a shorter window. In the code
  the number of windows is \<open>text.length / 8\<close>, which is not an integer then, and
  \<open>new Array\<close> throws: decimal \<open>5\<close> has the binary digits \<open>101\<close>, and both
  manipulations throw a RangeError on it instead of returning \<open>101\<close>.
\<close>

theorem binary_output_of_5_throws:
  "Number_toString (parseInt (trim (js ''5'')) 10) 2 = js ''101''
   \<and> formatBinaryNumber (js ''101'') = Throw RangeError
   \<and> Decimal_to_Binary (js ''5'') = Throw RangeError
   \<and> Hex_to_Binary (js ''5'') = Throw RangeError"
  by (simp add: number_eval binary_eval; code_simp)

lemmas buffer_eval =
  hexValue_def unbase64_def base64_sextets_def base64_decode_def lowByte_def
  between_def lowerBoundary_def upperBoundary_def tailBits_def codeUnits_def
  Hex_decoding_def Base64_decoding_def isHexString_def isBase64String_def

text \<open>
  C8, as the claim states it: decoding a string that is not valid hex, or not valid base64,
  gives the empty result. The text \<open>41zz\<close> is not valid hex and decodes to \<open>A\<close>; the
  text \<open>QUJD*\<close> is not valid base64 and decodes to \<open>ABC\<close>.
\<close>

theorem decoding_invalid_input_counterexample:
  "\<not> isHexString (js ''41zz'') \<and> Hex_decoding (js ''41zz'') = Return (Some (js ''A''))
   \<and> \<not> isBase64String (js ''QUJD*'') \<and> Base64_decoding (js ''QUJD*'') = Return (Some (js ''ABC''))"
  by (simp add: number_eval buffer_eval; code_simp)

lemma low_bytes_decoded:
  "Hex_decoding [0x134, 0x131] = Return (Some (js ''A''))
   \<and> Base64_decoding [0x151, 0x155] = Return (Some (js ''A''))
   \<and> Base64_decoding (js ''QU'' @ [0x13D] @ js ''JD'') = Return (Some (js ''A''))"
  by (simp add: number_eval buffer_eval; code_simp)

lemma length_map_filter: "length (List.map_filter f xs) = length (filter (\<lambda>x. f x \<noteq> None) xs)"
  by (simp add: List.map_filter_def)

text \<open>
  C8, amended: neither decoding fails, and both read a character through the low byte of
  its code unit. The value of "Hex decoding" is the UTF-8 reading of the bytes of the
  leading pairs of hexadecimal digits, so it is empty exactly when the text does not
  start with two of them. The value of "Base64 decoding" is the UTF-8 reading of the
  bytes of the characters of the alphabets before the first \<open>=\<close>, so it is empty exactly
  when there are fewer than two of them. The code units U+0134 U+0131 have the low bytes
  of \<open>41\<close> and decode to \<open>A\<close> as hex, U+0151 U+0155 have those of \<open>QU\<close> and decode
  to \<open>A\<close> as base64, and U+013D ends a base64 text as \<open>=\<close> does.
\<close>

theorem decoding_never_fails:
  "Hex_decoding text = Return (Some (utf8_decode (hex_decode text)))
   \<and> map_of (manipulateString P now text) ''Hex decoding'' = Some (utf8_decode (hex_decode text))
   \<and> (utf8_decode (hex_decode text) = []) =
       (case text of
          a # b # _ \<Rightarrow> \<not> (isRadixDigit 16 (lowByte a) \<and> isRadixDigit 16 (lowByte b))
        | _ \<Rightarrow> True)
   \<and> Base64_decoding text = Return (Some (utf8_decode (base64_decode text)))
   \<and> map_of (manipulateString P now text) ''Base64 decoding'' = Some (utf8_decode (base64_decode text))
   \<and> (utf8_decode (base64_decode text) = []) =
       (length (filter (\<lambda>c. unbase64 c \<noteq> None) (takeWhile (\<lambda>c. c \<noteq> 0x3D) (map lowByte text))) < 2)
   \<and> Hex_decoding [0x134, 0x131] = Return (Some (js ''A''))
   \<and> Base64_decoding [0x151, 0x155] = Return (Some (js ''A''))
   \<and> Base64_decoding (js ''QU'' @ [0x13D] @ js ''JD'') = Return (Some (js ''A''))"
proof -
  have digit: "(hexValue c = None) = (\<not> isRadixDigit 16 c)" for c
    by (auto simp: hexValue_def isRadixDigit_def split: option.splits)
  have hex: "(hex_decode text = []) =
        (case text of
           a # b # _ \<Rightarrow> \<not> (isRadixDigit 16 (lowByte a) \<and> isRadixDigit 16 (lowByte b))
         | _ \<Rightarrow> True)"
    by (simp add: hex_decode_Nil_iff digit split: list.split)
  have base64: "(base64_decode text = []) =
        (length (filter (\<lambda>c. unbase64 c \<noteq> None) (takeWhile (\<lambda>c. c \<noteq> 0x3D) (map lowByte text))) < 2)"
    by (simp add: base64_decode_def base64_ungroup_Nil_iff base64_sextets_def length_map_filter)
  have "map_of (manipulateString P now text) ''Hex decoding'' = Some (utf8_decode (hex_decode text))"
    by (simp add: value_of_key manipulations_def Hex_decoding_def caught_def null_coalesce_empty_def)
  moreover
  have "map_of (manipulateString P now text) ''Base64 decoding'' = Some (utf8_decode (base64_decode text))"
    by (simp add: value_of_key manipulations_def Base64_decoding_def caught_def null_coalesce_empty_def)
  ultimately show ?thesis
    using low_bytes_decoded
    by (simp add: Hex_decoding_def Base64_decoding_def utf8_decode_Nil_iff hex base64)
qed

subsection \<open>Quoting a string and reading it back\<close>

lemma hexValue_digitChar: "d < 16 \<Longrightarrow> hexValue (digitChar d) = Some d"
proof -
  assume "d < 16"
  then have "d \<in> {0, 1, 2, 3, 4, 5, 6, 7, 8, 9, 10, 11, 12, 13, 14, 15}" by simp arith
  then show ?thesis
    by (elim insertE emptyE) (simp_all add: hexValue_def isRadixDigit_def digitValue_def digitChar_def)
qed

lemma four_hex_digits:
  "((n div 4096 * 16 + n div 256 mod 16) * 16 + n div 16 mod 16) * 16 + n mod 16 = (n::nat)"
proof -
  define m1 where "m1 = n div 16"
  define m2 where "m2 = m1 div 16"
  define m3 where "m3 = m2 div 16"
  have d1: "n div 256 = m2" by (simp add: m1_def m2_def div_mult2_eq)
  have d2: "n div 4096 = m3" by (simp add: m1_def m2_def m3_def div_mult2_eq)
  have "m3 * 16 + m2 mod 16 = m2" by (simp add: m3_def)
  moreover have "m2 * 16 + m1 mod 16 = m1" by (simp add: m2_def)
  moreover have "m1 * 16 + n mod 16 = n" by (simp add: m1_def)
  ultimately show ?thesis by (simp add: d1 d2 flip: m1_def)
qed

lemma hex4_digits:
  assumes "n < 65536"
  shows "hex4 (digitChar (n div 4096) # digitChar (n div 256 mod 16) # digitChar (n div 16 mod 16)
           # digitChar (n mod 16) # cs) = Some (of_nat n)"
proof -
  have a: "n div 4096 < 16" using assms by simp
  have "hex4 (digitChar (n div 4096) # digitChar (n div 256 mod 16) # digitChar (n div 16 mod 16)
           # digitChar (n mod 16) # cs)
        = Some (of_nat (((n div 4096 * 16 + n div 256 mod 16) * 16 + n div 16 mod 16) * 16 + n mod 16))"
    by (simp add: hex4_def hexValue_digitChar a del: of_nat_add of_nat_mult)
  then show ?thesis by (simp only: four_hex_digits)
qed

lemma unat_eq_numeral_word: "(unat (c::jschar) = n) \<Longrightarrow> c = of_nat n"
  by auto

lemma parse_chars_unit:
  "parse_chars (quoteCodePoint (unat c) @ cs) =
     (case parse_chars cs of None \<Rightarrow> None | Some (s, r) \<Rightarrow> Some (c # s, r))"
proof -
  have n: "unat c < 65536" using unsigned_less[of c, where 'a = nat] by simp
  consider (special) "unat c \<in> {0x8, 0x9, 0xA, 0xC, 0xD, 0x22, 0x5C}"
    | (escape) "unat c \<notin> {0x8, 0x9, 0xA, 0xC, 0xD, 0x22, 0x5C}" "unat c < 0x20 \<or> isSurrogate (unat c)"
    | (raw) "unat c \<notin> {0x8, 0x9, 0xA, 0xC, 0xD, 0x22, 0x5C}" "\<not> (unat c < 0x20 \<or> isSurrogate (unat c))"
    by blast
  then show ?thesis
  proof cases
    case special
    then have "c \<in> {0x8, 0x9, 0xA, 0xC, 0xD, 0x22, 0x5C}"
      by (auto dest: unat_eq_numeral_word)
    then show ?thesis
      by (elim insertE emptyE; hypsubst; simp add: quoteCodePoint_def unescape_def)
  next
    case escape
    then have q: "quoteCodePoint (unat c) = UnicodeEscape (unat c)"
      by (simp add: quoteCodePoint_def)
    show ?thesis
      by (simp add: q UnicodeEscape_def unescape_def hex4_digits[OF n])
  next
    case raw
    then have q: "quoteCodePoint (unat c) = [c]"
      using n by (simp add: quoteCodePoint_def codeUnits_def)
    have "c \<noteq> 0x22" "c \<noteq> 0x5C" "\<not> c < 0x20"
      using raw by (auto simp: word_less_nat_alt)
    then show ?thesis
      by (simp add: q)
  qed
qed

lemma parse_chars_pair:
  assumes "isLeadingSurrogate c" "isTrailingSurrogate d"
  shows "parse_chars (quoteCodePoint (0x10000 + (unat c - 0xD800) * 1024 + (unat d - 0xDC00)) @ cs) =
     (case parse_chars cs of None \<Rightarrow> None | Some (s, r) \<Rightarrow> Some (c # d # s, r))"
proof -
  let ?cp = "0x10000 + (unat c - 0xD800) * 1024 + (unat d - 0xDC00)"
  have c: "0xD800 \<le> unat c" "unat c \<le> 0xDBFF" and d: "0xDC00 \<le> unat d" "unat d \<le> 0xDFFF"
    using assms by (simp_all add: isLeadingSurrogate_def isTrailingSurrogate_def word_le_nat_alt)
  define a b where "a = unat c - 0xD800" and "b = unat d - 0xDC00"
  have b: "b < 1024" and ca: "0xD800 + a = unat c" and db: "0xDC00 + b = unat d"
    using c d by (simp_all add: a_def b_def)
  have cp: "?cp = 0x10000 + (a * 1024 + b)"
    by (simp add: a_def b_def)
  have u: "codeUnits ?cp = [c, d]"
    unfolding cp codeUnits_def using b by (simp add: ca db del: of_nat_add)
  have q: "quoteCodePoint ?cp = [c, d]"
    using u by (simp add: quoteCodePoint_def isSurrogate_def)
  have "c \<noteq> 0x22" "c \<noteq> 0x5C" "\<not> c < 0x20" "d \<noteq> 0x22" "d \<noteq> 0x5C" "\<not> d < 0x20"
    using c d by (auto simp: word_less_nat_alt)
  then show ?thesis
    by (simp add: q split: option.split)
qed

lemma parse_chars_quoted:
  "parse_chars (concat (map quoteCodePoint (codePoints s)) @ 0x22 # rest) = Some (s, rest)"
proof (induction s rule: codePoints.induct)
  case 1
  show ?case by simp
next
  case (2 c)
  show ?case using parse_chars_unit[of c "0x22 # rest"] by simp
next
  case (3 c d r)
  show ?case
  proof (cases "isLeadingSurrogate c \<and> isTrailingSurrogate d")
    case True
    then show ?thesis
      using 3(1) parse_chars_pair[of c d "concat (map quoteCodePoint (codePoints r)) @ 0x22 # rest"]
      by simp
  next
    case False
    then show ?thesis
      using 3(2) parse_chars_unit[of c "concat (map quoteCodePoint (codePoints (d # r))) @ 0x22 # rest"]
      by auto
  qed
qed

text \<open>
  C10. "Escape as JSON string" never fails: for every string, the empty one too, it
  returns a string literal, which is not empty and starts with a quote, and
  \<open>JSON.parse\<close> of that literal gives the string back.
\<close>

theorem escape_as_JSON_string_round_trip:
  "\<exists>v. Escape_as_JSON_string x = Return (Some v) \<and> v \<noteq> [] \<and> take 1 v = [0x22]
       \<and> JSON_parse v = Return (JString x)"
  by (simp add: Escape_as_JSON_string_def JSON_stringify_def QuoteJSONString_def JSON_parse_def
      skip_ws_def parse_chars_quoted)

subsection \<open>The runner\<close>

text \<open>
  C1. For every input string, the empty one too, the runner returns exactly one pair of
  key and value for each entry of the catalog, with the keys equal to the labels of the
  catalog in its order, whatever the manipulations do: return, return \<open>null\<close> or throw.
\<close>

theorem one_result_per_entry:
  "length (manipulateString P now x) = length (manipulations P now)
   \<and> map fst (manipulateString P now x) = map key (manipulations P now)
   \<and> map key (manipulations P now) =
       [''Raw'', ''Hex encoding'', ''Hex decoding'', ''Base64 encoding'', ''Base64 decoding'',
        ''URL encoding'', ''URL decoding'', ''HTML encoding'', ''HTML decoding'', ''Parse URL'',
        ''Convert UNIX timestamp (sec) to ISO 8601'', ''Convert ISO 8601 to UNIX timestamp (sec)'',
        ''Convert UNIX timestamp (ms) to ISO 8601'', ''Convert ISO 8601 to UNIX timestamp (ms)'',
        ''Convert duration from now'', ''Prettify JSON'', ''Minify JSON'', ''Escape as JSON string'',
        ''Convert JSON to form'', ''Convert form to JSON'', ''Extract JWT'', ''Extract and Decode JWT'',
        ''Calculate md5'', ''Calculate sha1'', ''Calculate sha256'', ''Convert camelCase'',
        ''Convert PascalCase'', ''Convert lower-kebab-case'', ''Convert UPPER-KEBAB-CASE'',
        ''Convert lower_snake_case'', ''Convert UPPER_SNAKE_CASE'', ''Convert dot.case'',
        ''Convert lowercase'', ''Convert UPPERCASE'', ''Convert words lowercase'',
        ''Convert First word capitalized'', ''Convert Words Capitalized'',
        ''Generate fuzzy search regex'', ''Hex(16) to Decimal(10)'', ''Hex(16) to Binary(2)'',
        ''Decimal(10) to Hex(16)'', ''Decimal(10) to Binary(2)'', ''Binary(2) to Hex(16)'',
        ''Binary(2) to Decimal(10)'']
   \<and> distinct (map fst (manipulateString P now x))"
proof -
  have keys: "map fst (manipulateString P now x) = map key (manipulations P now)"
    by (simp add: manipulateString_def comp_def)
  show ?thesis
    unfolding keys by (simp add: manipulateString_def) (simp add: manipulations_def)
qed

lemma Prettify_not_json: "Prettify_JSON (js ''not json'') = Throw SyntaxError"
  by (simp add: Prettify_JSON_def JSON_parse_def js_def skip_ws_def parse_number_def Let_def isDigit_def)

text \<open>
  C2. The runner never throws: it is a total function to a list of pairs, and the value
  of an entry whose manipulation throws or returns \<open>null\<close> is the empty string. For the
  input \<open>not json\<close> the value of "Prettify JSON" is the empty string.
\<close>

theorem failures_become_empty:
  "manipulateString P now x =
     map (\<lambda>m. (key m, case manipulation m x of Return (Some v) \<Rightarrow> v | Return None \<Rightarrow> [] | Throw e \<Rightarrow> []))
       (manipulations P now)
   \<and> map_of (manipulateString P now (js ''not json'')) ''Prettify JSON'' = Some []"
proof -
  have "null_coalesce_empty (caught c) = (case c of Return (Some v) \<Rightarrow> v | Return None \<Rightarrow> [] | Throw e \<Rightarrow> [])"
    for c
    by (simp add: null_coalesce_empty_def caught_def split: completion.split option.split)
  then have "manipulateString P now x =
     map (\<lambda>m. (key m, case manipulation m x of Return (Some v) \<Rightarrow> v | Return None \<Rightarrow> [] | Throw e \<Rightarrow> []))
       (manipulations P now)"
    by (simp add: manipulateString_def)
  moreover have "map_of (manipulateString P now (js ''not json'')) ''Prettify JSON'' = Some []"
    by (simp add: value_of_key manipulations_def Prettify_not_json caught_def null_coalesce_empty_def)
  ultimately show ?thesis by simp
qed

text \<open>
  C7, amended: two evaluations of the runner at any two instants agree on every entry
  but "Convert duration from now", whose value is that of \<open>getTimeDifference\<close> for the
  instant of the evaluation and the date in the input.
\<close>

theorem only_the_duration_reads_the_clock:
  "filter (\<lambda>r. fst r \<noteq> ''Convert duration from now'') (manipulateString P now x)
     = filter (\<lambda>r. fst r \<noteq> ''Convert duration from now'') (manipulateString P now' x)
   \<and> map_of (manipulateString P now x) ''Convert duration from now''
     = Some (null_coalesce_empty (caught (getTimeDifference P (Num (of_int now)) (Date_parse P (trim x)))))"
  by (simp add: manipulateString_def manipulations_def Convert_duration_from_now_def)

lemmas platform_eval =
  example_platform_def splitIntoWords_spec_def getTimeDifference_spec_def humanize_def
  ascii_toUpperCase_def ascii_toLowerCase_def isUpper_def isLower_def isDigit_def isAlphanumeric_def
  isRadixDigit_def digitValue_def digitChar_def word_boundary_def parse_ISO_8601_def
  days_from_civil_def mathInt_def js_def trim_def isWhiteSpace_def Let_def

text \<open>
  C7, as the claim states it: two evaluations at different instants return identical
  results for every entry. For the input \<open>1970-01-02T00:00:00.000Z\<close> the value of
  "Convert duration from now" is \<open>1 day from now\<close> at the instant 0 and \<open>1 day ago\<close> two
  days later.
\<close>

theorem duration_depends_on_the_clock:
  "map_of (manipulateString example_platform 0 (js ''1970-01-02T00:00:00.000Z''))
     ''Convert duration from now'' = Some (js ''1 day from now'')
   \<and> map_of (manipulateString example_platform 172800000 (js ''1970-01-02T00:00:00.000Z''))
     ''Convert duration from now'' = Some (js ''1 day ago'')"
proof -
  have "Convert_duration_from_now example_platform 0 (js ''1970-01-02T00:00:00.000Z'')
          = Return (Some (js ''1 day from now''))"
    by (simp add: Convert_duration_from_now_def platform_eval)
  moreover have "Convert_duration_from_now example_platform 172800000 (js ''1970-01-02T00:00:00.000Z'')
          = Return (Some (js ''1 day ago''))"
    by (simp add: Convert_duration_from_now_def platform_eval)
  ultimately show ?thesis
    by (simp add: value_of_key manipulations_def caught_def null_coalesce_empty_def)
qed

subsection \<open>Camel case\<close>

lemma join_empty_separator: "join [] ws = concat ws"
proof -
  have "map ((@) []) xs = xs" for xs :: "jsstring list"
    by (induction xs) simp_all
  then show ?thesis
    by (cases ws) (simp_all add: join_def)
qed

lemma capitalize_simps:
  "capitalize P [] = Throw TypeError"
  "capitalize P (c # cs) = Return (toUpperCase P [c] @ cs)"
  by (simp_all add: capitalize_def)

lemma mapM_capitalize:
  "mapM (capitalize P) ws =
     (if list_all (\<lambda>v. v \<noteq> []) ws then Return (map (\<lambda>v. toUpperCase P (take 1 v) @ drop 1 v) ws)
      else Throw TypeError)"
proof (induction ws)
  case Nil
  show ?case by simp
next
  case (Cons w ws)
  show ?case
    by (cases w) (simp_all add: Cons.IH capitalize_simps)
qed

lemma mapM_later_words:
  "length ns = length ws \<Longrightarrow> list_all (\<lambda>i. i \<noteq> 0) ns \<Longrightarrow>
   mapM (\<lambda>p. if snd p = 0 then Return (fst p) else capitalize P (fst p)) (zip ws ns)
     = mapM (capitalize P) ws"
proof (induction ws arbitrary: ns)
  case Nil
  show ?case by simp
next
  case (Cons w ws)
  then obtain n ns' where ns: "ns = n # ns'" by (cases ns) auto
  show ?case
    using Cons.prems Cons.IH[of ns'] by (simp add: ns split: completion.split)
qed

lemma indices_from_0: "[0..<Suc n] = 0 # map Suc [0..<n]"
  by (simp add: upt_conv_Cons map_Suc_upt del: upt_Suc)

text \<open>
  C6, amended: "Convert camelCase" leaves the first token as the tokenizer produced it
  and capitalizes each later token (its first character in upper case, the rest
  unchanged), joining all tokens with no separator. A later token that is empty is a
  TypeError.
\<close>

theorem camelCase_keeps_first_token:
  "Convert_camelCase P text =
     (case splitIntoWords P (trim text) of
        [] \<Rightarrow> Return (Some [])
      | w # ws \<Rightarrow>
          if list_all (\<lambda>v. v \<noteq> []) ws
          then Return (Some (w @ concat (map (\<lambda>v. toUpperCase P (take 1 v) @ drop 1 v) ws)))
          else Throw TypeError)"
proof (cases "splitIntoWords P (trim text)")
  case Nil
  then show ?thesis
    by (simp add: Convert_camelCase_def mapM_index_def joined_def join_def)
next
  case (Cons w ws)
  have "mapM_index (\<lambda>word index. if index = 0 then Return word else capitalize P word) (w # ws)
      = (case mapM (capitalize P) ws of Throw e \<Rightarrow> Throw e | Return ys \<Rightarrow> Return (w # ys))"
    using mapM_later_words[of "map Suc [0..<length ws]" ws P]
    by (simp add: mapM_index_def indices_from_0 list_all_iff del: upt_Suc)
  then show ?thesis
    by (simp add: Convert_camelCase_def Cons joined_def join_empty_separator mapM_capitalize)
qed

text \<open>
  C6, as the claim states it: the first token comes out in lower case. The text
  \<open>HTTPServer\<close> has the tokens \<open>HTTP\<close> and \<open>Server\<close>, and the result is \<open>HTTPServer\<close>,
  not \<open>httpServer\<close>.
\<close>

theorem camelCase_first_token_counterexample:
  "splitIntoWords example_platform (trim (js ''HTTPServer'')) = [js ''HTTP'', js ''Server'']
   \<and> toLowerCase example_platform (js ''HTTP'') = js ''http''
   \<and> Convert_camelCase example_platform (js ''HTTPServer'') = Return (Some (js ''HTTPServer''))
   \<and> map_of (manipulateString example_platform 0 (js ''HTTPServer'')) ''Convert camelCase''
       = Some (js ''HTTPServer'')"
proof -
  have "Convert_camelCase example_platform (js ''HTTPServer'') = Return (Some (js ''HTTPServer''))"
    by (simp add: Convert_camelCase_def mapM_index_def capitalize_def joined_def join_def platform_eval;
        code_simp)
  then show ?thesis
    by (simp add: value_of_key manipulations_def caught_def null_coalesce_empty_def)
       (simp add: platform_eval)
qed

subsection \<open>The fields of a URL\<close>

lemma map_of_insertIndex:
  "k \<notin> fst ` set qs \<Longrightarrow> map_of (insertIndex i (k, v) qs) x = (if x = k then Some v else map_of qs x)"
  by (induction qs) (auto split: option.split)

lemma map_of_replaced:
  "map_of (map (\<lambda>p. if fst p = k then (k, v) else p) qs) x =
     (if x = k \<and> k \<in> fst ` set qs then Some v else map_of qs x)"
  by (induction qs) force+

lemma map_of_defineProperty:
  "map_of (defineProperty k v ps) x = (if x = k then Some v else map_of ps x)"
proof (cases "map_of ps k")
  case None
  then have notin: "k \<notin> fst ` set ps"
    by (simp add: map_of_eq_None_iff)
  show ?thesis
    using None notin
    by (auto simp: defineProperty_def map_of_insertIndex map_add_def split: option.split)
next
  case (Some w)
  from map_of_SomeD[OF Some] have "k \<in> fst ` set ps"
    by force
  then show ?thesis
    using Some by (simp add: defineProperty_def map_of_replaced)
qed

lemma keys_insertIndex: "fst ` set (insertIndex i kv qs) = insert (fst kv) (fst ` set qs)"
  by (induction qs) (auto split: option.split)

lemma distinct_insertIndex:
  "fst kv \<notin> fst ` set qs \<Longrightarrow> distinct (map fst qs) \<Longrightarrow> distinct (map fst (insertIndex i kv qs))"
proof (induction qs)
  case Nil
  show ?case by simp
next
  case (Cons q qs)
  then show ?case
    using keys_insertIndex[of i kv qs] by (auto split: option.split)
qed

lemma distinct_defineProperty:
  "distinct (map fst ps) \<Longrightarrow> distinct (map fst (defineProperty k v ps))"
proof (cases "map_of ps k")
  case None
  assume d: "distinct (map fst ps)"
  from None have "k \<notin> fst ` set ps" by (simp add: map_of_eq_None_iff)
  then show ?thesis
    using d None distinct_insertIndex[of "(k, v)" ps] by (auto simp: defineProperty_def split: option.split)
next
  case (Some w)
  assume d: "distinct (map fst ps)"
  have "fst \<circ> (\<lambda>p. if fst p = k then (k, v) else p) = fst"
    by (auto simp: fun_eq_iff)
  then show ?thesis
    using d Some by (simp add: defineProperty_def)
qed

lemma fromEntries_fold:
  "map_of (foldl (\<lambda>ps e. defineProperty (fst e) (snd e) ps) ps0 es) x =
     (case map_of (rev es) x of None \<Rightarrow> map_of ps0 x | Some v \<Rightarrow> Some v)"
proof (induction es arbitrary: ps0)
  case Nil
  show ?case by simp
next
  case (Cons e es)
  show ?case
    by (cases e) (auto simp: Cons.IH map_of_defineProperty map_add_def split: option.split)
qed

lemma distinct_fold:
  "distinct (map fst ps0) \<Longrightarrow> distinct (map fst (foldl (\<lambda>ps e. defineProperty (fst e) (snd e) ps) ps0 es))"
  by (induction es arbitrary: ps0) (simp_all add: distinct_defineProperty)

lemma map_of_graph:
  "list_all (\<lambda>p. snd p = f (fst p)) es \<Longrightarrow>
   map_of es k = (if k \<in> fst ` set es then Some (f k) else None)"
  by (induction es) auto

lemma fromEntries_of_keys:
  "map_of (fromEntries (map (\<lambda>k. (k, f k)) ks)) k = (if k \<in> set ks then Some (f k) else None)"
  "distinct (map fst (fromEntries (map (\<lambda>k. (k, f k)) ks)))"
proof -
  have "list_all (\<lambda>p. snd p = f (fst p)) (rev (map (\<lambda>k. (k, f k)) ks))"
    by (simp add: list_all_iff)
  from map_of_graph[OF this, of k]
  show "map_of (fromEntries (map (\<lambda>k. (k, f k)) ks)) k = (if k \<in> set ks then Some (f k) else None)"
    by (simp add: fromEntries_def fromEntries_fold image_image)
  show "distinct (map fst (fromEntries (map (\<lambda>k. (k, f k)) ks)))"
    by (simp add: fromEntries_def distinct_fold)
qed

lemma searchParams_get_None: "(searchParams_get ps name = None) = (name \<notin> fst ` set ps)"
  by (induction ps) (auto simp: searchParams_get_def)

text \<open>
  C4, amended: for an input that parses as a URL, "Parse URL" returns the pretty-printed
  JSON of an object with the fields href, origin, protocol, username, password, host,
  port, hostname, pathname, search, searchParams, searchAllParams and hash, in this
  order, where searchParams maps each distinct name of a query parameter to its first
  value and searchAllParams maps it to the sequence of all its values. For an input that
  does not parse as a URL the manipulation throws, and the runner records the empty
  string.
\<close>

theorem Parse_URL_fields:
  "case new_URL P (trim text) of
     None \<Rightarrow>
       Parse_URL P text = Throw TypeError
       \<and> map_of (manipulateString P now text) ''Parse URL'' = Some []
   | Some url \<Rightarrow>
       \<exists>first_values all_values.
         Parse_URL P text =
           Return (Some (JSON_stringify
             (JObject
               [(js ''href'', JString (href url)),
                (js ''origin'', JString (origin url)),
                (js ''protocol'', JString (protocol url)),
                (js ''username'', JString (username url)),
                (js ''password'', JString (password url)),
                (js ''host'', JString (host url)),
                (js ''port'', JString (port url)),
                (js ''hostname'', JString (hostname url)),
                (js ''pathname'', JString (pathname url)),
                (js ''search'', JString (search url)),
                (js ''searchParams'', JObject first_values),
                (js ''searchAllParams'', JObject all_values),
                (js ''hash'', JString (hash url))])
             2))
         \<and> distinct (map fst first_values) \<and> distinct (map fst all_values)
         \<and> (\<forall>name. map_of first_values name
                     = map_option JString (searchParams_get (searchParams url) name))
         \<and> (\<forall>name. map_of all_values name
                     = (if name \<in> fst ` set (searchParams url)
                        then Some (JArray (map JString (searchParams_getAll (searchParams url) name)))
                        else None))"
proof (cases "new_URL P (trim text)")
  case None
  then show ?thesis
    by (simp add: Parse_URL_def value_of_key manipulations_def caught_def null_coalesce_empty_def)
next
  case (Some url)
  let ?ps = "searchParams url"
  let ?first = "fromEntries (map (\<lambda>key. (key, case searchParams_get ?ps key of
                                            None \<Rightarrow> JNull | Some v \<Rightarrow> JString v)) (searchParams_keys ?ps))"
  let ?all = "fromEntries (map (\<lambda>key. (key, JArray (map JString (searchParams_getAll ?ps key))))
                             (searchParams_keys ?ps))"
  have keys: "set (searchParams_keys ?ps) = fst ` set ?ps"
    by (simp add: searchParams_keys_def)
  have 1: "map_of ?first name = map_option JString (searchParams_get ?ps name)" for name
    using searchParams_get_None[of ?ps name]
    by (auto simp: fromEntries_of_keys(1) keys split: option.split)
  have 2: "map_of ?all name = (if name \<in> fst ` set ?ps
            then Some (JArray (map JString (searchParams_getAll ?ps name))) else None)" for name
    by (simp add: fromEntries_of_keys(1) keys)
  have eq: "Parse_URL P text = Return (Some (JSON_stringify
             (JObject
               [(js ''href'', JString (href url)),
                (js ''origin'', JString (origin url)),
                (js ''protocol'', JString (protocol url)),
                (js ''username'', JString (username url)),
                (js ''password'', JString (password url)),
                (js ''host'', JString (host url)),
                (js ''port'', JString (port url)),
                (js ''hostname'', JString (hostname url)),
                (js ''pathname'', JString (pathname url)),
                (js ''search'', JString (search url)),
                (js ''searchParams'', JObject ?first),
                (js ''searchAllParams'', JObject ?all),
                (js ''hash'', JString (hash url))])
             2))"
    by (simp add: Parse_URL_def Some Let_def)
  have d: "distinct (map fst ?first)" "distinct (map fst ?all)"
    by (rule fromEntries_of_keys(2))+
  show ?thesis
    unfolding Some option.simps
    by (rule exI[of _ ?first], rule exI[of _ ?all]) (simp only: eq d 1 2 simp_thms)
qed

lemmas json_eval =
  JSON_stringify_def QuoteJSONString_def quoteCodePoint_def codeUnits_def isSurrogate_def
  isLeadingSurrogate_def isTrailingSurrogate_def join_def fromEntries_def defineProperty_def
  arrayIndex_def

lemmas url_eval =
  plain_URL_def query_pair_def searchParams_keys_def searchParams_get_def searchParams_getAll_def

text \<open>
  C4, as the claim states it: for a URL with a repeated query parameter the single-value
  mapping holds the last value. The query of \<open>https://example.com/?a=1&a=2\<close> has the
  pairs \<open>a=1\<close> and \<open>a=2\<close>, the last value of \<open>a\<close> is \<open>2\<close>, and searchParams holds \<open>1\<close>.
\<close>

theorem Parse_URL_repeated_parameter:
  "map_option searchParams (new_URL example_platform (trim (js ''https://example.com/?a=1&a=2'')))
     = Some [(js ''a'', js ''1''), (js ''a'', js ''2'')]
   \<and> searchParams_getAll [(js ''a'', js ''1''), (js ''a'', js ''2'')] (js ''a'') = [js ''1'', js ''2'']
   \<and> Parse_URL example_platform (js ''https://example.com/?a=1&a=2'') = Return (Some (js ''{'' @ [0xA] @ js ''  '' @ [0x22] @ js ''href'' @ [0x22] @ js '': '' @ [0x22] @ js ''https://example.com/?a=1&a=2'' @ [0x22] @ js '','' @ [0xA] @ js ''  '' @ [0x22] @ js ''origin'' @ [0x22] @ js '': '' @ [0x22] @ js ''https://example.com'' @ [0x22] @ js '','' @ [0xA] @ js ''  '' @ [0x22] @ js ''protocol'' @ [0x22] @ js '': '' @ [0x22] @ js ''https:'' @ [0x22] @ js '','' @ [0xA] @ js ''  '' @ [0x22] @ js ''username'' @ [0x22] @ js '': '' @ [0x22, 0x22] @ js '','' @ [0xA] @ js ''  '' @ [0x22] @ js ''password'' @ [0x22] @ js '': '' @ [0x22, 0x22] @ js '','' @ [0xA] @ js ''  '' @ [0x22] @ js ''host'' @ [0x22] @ js '': '' @ [0x22] @ js ''example.com'' @ [0x22] @ js '','' @ [0xA] @ js ''  '' @ [0x22] @ js ''port'' @ [0x22] @ js '': '' @ [0x22, 0x22] @ js '','' @ [0xA] @ js ''  '' @ [0x22] @ js ''hostname'' @ [0x22] @ js '': '' @ [0x22] @ js ''example.com'' @ [0x22] @ js '','' @ [0xA] @ js ''  '' @ [0x22] @ js ''pathname'' @ [0x22] @ js '': '' @ [0x22] @ js ''/'' @ [0x22] @ js '','' @ [0xA] @ js ''  '' @ [0x22] @ js ''search'' @ [0x22] @ js '': '' @ [0x22] @ js ''?a=1&a=2'' @ [0x22] @ js '','' @ [0xA] @ js ''  '' @ [0x22] @ js ''searchParams'' @ [0x22] @ js '': {'' @ [0xA] @ js ''    '' @ [0x22] @ js ''a'' @ [0x22] @ js '': '' @ [0x22] @ js ''1'' @ [0x22, 0xA] @ js ''  },'' @ [0xA] @ js ''  '' @ [0x22] @ js ''searchAllParams'' @ [0x22] @ js '': {'' @ [0xA] @ js ''    '' @ [0x22] @ js ''a'' @ [0x22] @ js '': ['' @ [0xA] @ js ''      '' @ [0x22] @ js ''1'' @ [0x22] @ js '','' @ [0xA] @ js ''      '' @ [0x22] @ js ''2'' @ [0x22, 0xA] @ js ''    ]'' @ [0xA] @ js ''  },'' @ [0xA] @ js ''  '' @ [0x22] @ js ''hash'' @ [0x22] @ js '': '' @ [0x22, 0x22, 0xA] @ js ''}''))"
  by (simp add: Parse_URL_def url_eval json_eval platform_eval; code_simp)

subsection \<open>JSON Web Tokens\<close>


























subsection \<open>Bytes and their hexadecimal digits\<close>

lemma unat_byte: "n < 256 \<Longrightarrow> unat (of_nat n :: byte) = n"
  by (simp add: unat_of_nat)

lemma unat_jschar: "n < 65536 \<Longrightarrow> unat (of_nat n :: jschar) = n"
  by (simp add: unat_of_nat)

lemma lowByte_take_bit: "lowByte c = take_bit 8 c"
  by (simp add: lowByte_def take_bit_eq_mask mask_eq_exp_minus_1)

lemma lowByte_small: "n < 256 \<Longrightarrow> lowByte (of_nat n) = of_nat n"
proof -
  assume "n < 256"
  then have "take_bit 8 n = n"
    by (simp add: take_bit_nat_eq_self_iff)
  then show ?thesis
    by (simp only: lowByte_take_bit take_bit_of_nat)
qed

lemma digitChar_small: "d < 16 \<Longrightarrow> \<exists>n < 256. digitChar d = of_nat n"
  by (auto simp: digitChar_def intro: exI[of _ "48 + d"] exI[of _ "87 + d"])

lemma lowByte_digitChar: "d < 16 \<Longrightarrow> lowByte (digitChar d) = digitChar d"
  using digitChar_small[of d] lowByte_small by auto

lemma hex_decode_encode: "hex_decode (hex_encode bs) = bs"
proof (induction bs)
  case Nil
  show ?case by (simp add: hex_encode_def)
next
  case (Cons b bs)
  have lt: "unat b div 16 < 16" "unat b mod 16 < 16"
    using unsigned_less[of b, where 'a = nat] by (simp_all add: less_mult_imp_div_less)
  have "of_nat (unat b div 16 * 16 + unat b mod 16) = b"
    by simp
  with Cons lt show ?case
    by (simp add: hex_encode_def lowByte_digitChar hexValue_digitChar del: of_nat_add of_nat_mult)
qed

subsection \<open>Bytes and their base64 characters\<close>

lemma base64_char_nat:
  "base64_char v = of_nat (if v < 26 then 65 + v else if v < 52 then 71 + v else if v < 62 then v - 4
                           else if v = 62 then 43 else 47)"
  by (simp add: base64_char_def)

lemma lowByte_base64_char: "v < 64 \<Longrightarrow> lowByte (base64_char v) = base64_char v"
  unfolding base64_char_nat by (rule lowByte_small) (simp, arith)

lemma unat_base64_char:
  "v < 64 \<Longrightarrow> unat (base64_char v) =
     (if v < 26 then 65 + v else if v < 52 then 71 + v else if v < 62 then v - 4
      else if v = 62 then 43 else 47)"
  unfolding base64_char_nat by (rule unat_jschar) (simp, arith)

lemma jschar_le: "(numeral a \<le> (c::jschar)) = (unat (numeral a :: jschar) \<le> unat c)"
  "((c::jschar) \<le> numeral a) = (unat c \<le> unat (numeral a :: jschar))"
  by (simp_all add: word_le_nat_alt)

lemma jschar_eq: "((c::jschar) = numeral a) = (unat c = unat (numeral a :: jschar))"
  by (simp add: word_unat_eq_iff)

lemma unbase64_base64_char: "v < 64 \<Longrightarrow> unbase64 (base64_char v) = Some v"
  by (simp add: unbase64_def jschar_le jschar_eq unat_base64_char) arith

lemma base64_char_not_pad: "v < 64 \<Longrightarrow> base64_char v \<noteq> 0x3D"
  by (simp add: jschar_eq unat_base64_char) arith

lemma lowByte_pad: "lowByte 0x3D = 0x3D"
  using lowByte_small[of 61] by simp

lemma base64_sextets_char:
  "v < 64 \<Longrightarrow> base64_sextets (base64_char v # s) = v # base64_sextets s"
  by (simp add: base64_sextets_def lowByte_base64_char base64_char_not_pad unbase64_base64_char
      List.map_filter_simps)

lemma base64_sextets_pad: "base64_sextets (0x3D # s) = []"
  by (simp add: base64_sextets_def lowByte_pad List.map_filter_simps)

lemma sextets_of_bytes:
  fixes a b c :: nat
  assumes "b < 256" "c < 256"
  shows "a div 4 * 4 + (a mod 4 * 16 + b div 16) div 16 = a"
    and "(a mod 4 * 16 + b div 16) mod 16 * 16 + (b mod 16 * 4 + c div 64) div 4 = b"
    and "(b mod 16 * 4 + c div 64) mod 4 * 64 + c mod 64 = c"
    and "(a mod 4 * 16 + b div 16) mod 16 * 16 + (b mod 16 * 4) div 4 = b"
    and "a div 4 * 4 + (a mod 4 * 16) div 16 = a"
proof -
  have b: "b div 16 < 16" and c: "c div 64 < 4"
    using assms by (simp_all add: less_mult_imp_div_less)
  show "a div 4 * 4 + (a mod 4 * 16 + b div 16) div 16 = a"
    using b by simp
  show "(a mod 4 * 16 + b div 16) mod 16 * 16 + (b mod 16 * 4 + c div 64) div 4 = b"
    using b c by simp
  show "(b mod 16 * 4 + c div 64) mod 4 * 64 + c mod 64 = c"
    using c by simp
  show "(a mod 4 * 16 + b div 16) mod 16 * 16 + (b mod 16 * 4) div 4 = b"
    using b by simp
  show "a div 4 * 4 + (a mod 4 * 16) div 16 = a"
    by simp
qed

lemma sextets_small:
  fixes a b c :: nat
  assumes "a < 256" "b < 256" "c < 256"
  shows "a div 4 < 64" "a mod 4 * 16 + b div 16 < 64" "b mod 16 * 4 + c div 64 < 64" "c mod 64 < 64"
    "b mod 16 * 4 < 64" "a mod 4 * 16 < 64"
proof -
  have b: "b div 16 < 16" and c: "c div 64 < 4" and a: "a div 4 < 64"
    using assms by (simp_all add: less_mult_imp_div_less)
  have a4: "a mod 4 < 4" and b16: "b mod 16 < 16" by simp_all
  show "a div 4 < 64" by (rule a)
  show "a mod 4 * 16 + b div 16 < 64" using a4 b by linarith
  show "b mod 16 * 4 + c div 64 < 64" using b16 c by linarith
  show "c mod 64 < 64" by simp
  show "b mod 16 * 4 < 64" using b16 by linarith
  show "a mod 4 * 16 < 64" using a4 by linarith
qed

lemma base64_decode_groups:
  "list_all (\<lambda>n. n < 256) ns \<Longrightarrow> base64_decode (base64_groups ns) = map of_nat ns"
proof (induction ns rule: base64_groups.induct)
  case (1 a b c r)
  then have small: "a < 256" "b < 256" "c < 256" and r: "list_all (\<lambda>n. n < 256) r"
    by simp_all
  from 1 r have IH: "base64_ungroup (base64_sextets (base64_groups r)) = map of_nat r"
    by (simp add: base64_decode_def)
  show ?case
    using small
    by (simp add: base64_decode_def base64_sextets_char sextets_small sextets_of_bytes IH
        del: of_nat_add of_nat_mult)
next
  case (2 a b)
  then have small: "a < 256" "b < 256" by simp_all
  show ?case
    using small
    by (simp add: base64_decode_def base64_sextets_char base64_sextets_pad sextets_small
        sextets_of_bytes del: of_nat_add of_nat_mult)
next
  case (3 a)
  then have small: "a < 256" by simp
  show ?case
    using small
    by (simp add: base64_decode_def base64_sextets_char base64_sextets_pad sextets_small
        sextets_of_bytes del: of_nat_add of_nat_mult)
next
  case 4
  show ?case by (simp add: base64_decode_def base64_sextets_def List.map_filter_simps)
qed

lemma base64_decode_encode: "base64_decode (base64_encode bs) = bs"
proof -
  have "list_all (\<lambda>n. n < 256) (map unat bs)"
    using unsigned_less[where 'a = nat and 'b = 8] by (simp add: list_all_iff)
  then show ?thesis
    by (simp add: base64_encode_def base64_decode_groups comp_def)
qed

subsection \<open>Code points and their UTF-8 bytes\<close>

lemma byte_le: "(numeral a \<le> (c::byte)) = (unat (numeral a :: byte) \<le> unat c)"
  "((c::byte) \<le> numeral a) = (unat c \<le> unat (numeral a :: byte))"
  "((c::byte) < numeral a) = (unat c < unat (numeral a :: byte))"
  by (simp_all add: word_le_nat_alt word_less_nat_alt)

lemma byte_eq: "((c::byte) = numeral a) = (unat c = unat (numeral a :: byte))"
  by (simp add: word_unat_eq_iff)

lemmas byte_order = between_def lowerBoundary_def upperBoundary_def tailBits_def byte_le byte_eq

lemma utf8_code_point_2:
  assumes "2 \<le> h" "h < 32" "l < 64"
  shows "utf8_code_point [of_nat (0xC0 + h), of_nat (0x80 + l)] = Some (h * 64 + l)"
  using assms by (simp add: utf8_code_point_def byte_order unat_byte del: of_nat_add)

lemma utf8_code_point_3:
  assumes "h < 16" "m < 64" "l < 64" "h = 0 \<longrightarrow> 32 \<le> m" "h = 13 \<longrightarrow> m < 32"
  shows "utf8_code_point [of_nat (0xE0 + h), of_nat (0x80 + m), of_nat (0x80 + l)]
           = Some (h * 4096 + m * 64 + l)"
  using assms by (simp add: utf8_code_point_def byte_order unat_byte del: of_nat_add) arith

lemma utf8_code_point_4:
  assumes "h < 5" "m < 64" "n < 64" "l < 64" "h = 0 \<longrightarrow> 16 \<le> m" "h = 4 \<longrightarrow> m < 16"
  shows "utf8_code_point [of_nat (0xF0 + h), of_nat (0x80 + m), of_nat (0x80 + n), of_nat (0x80 + l)]
           = Some (h * 262144 + m * 4096 + n * 64 + l)"
  using assms by (simp add: utf8_code_point_def byte_order unat_byte del: of_nat_add) arith

lemma utf8_code_point_bytes:
  assumes "0x80 \<le> cp" "cp < 0x110000" "\<not> isSurrogate cp"
  shows "utf8_code_point (utf8_bytes cp) = Some cp"
proof -
  define q where "q = cp div 64"
  define l where "l = cp mod 64"
  have cp: "cp = q * 64 + l" and l: "l < 64"
    by (simp_all add: q_def l_def)
  consider "cp < 0x800" | "0x800 \<le> cp" "cp < 0x10000" | "0x10000 \<le> cp" by linarith
  then show ?thesis
  proof cases
    case 1
    have "utf8_bytes cp = [of_nat (0xC0 + q), of_nat (0x80 + l)]"
      using 1 assms by (simp add: utf8_bytes_def q_def l_def)
    moreover have "2 \<le> q" "q < 32" using assms 1 cp l by linarith+
    ultimately show ?thesis using utf8_code_point_2[of q l] l cp by simp
  next
    case 2
    define h where "h = q div 64"
    define m where "m = q mod 64"
    have q: "q = h * 64 + m" and m: "m < 64"
      by (simp_all add: h_def m_def)
    have h4096: "cp div 4096 = h"
      by (simp add: h_def q_def div_mult2_eq)
    have "utf8_bytes cp = [of_nat (0xE0 + h), of_nat (0x80 + m), of_nat (0x80 + l)]"
      using 2 by (simp add: utf8_bytes_def h4096) (simp add: q_def l_def m_def)
    moreover have "h < 16" "h = 0 \<longrightarrow> 32 \<le> m" "h = 13 \<longrightarrow> m < 32"
      using assms 2 cp q l m by (simp_all add: isSurrogate_def) linarith+
    moreover have "h * 4096 + m * 64 + l = cp"
      using cp q by simp
    ultimately show ?thesis using utf8_code_point_3[of h m l] l m by simp
  next
    case 3
    define r where "r = q div 64"
    define n where "n = q mod 64"
    define h where "h = r div 64"
    define m where "m = r mod 64"
    have q: "q = r * 64 + n" and n: "n < 64" and r: "r = h * 64 + m" and m: "m < 64"
      by (simp_all add: r_def n_def h_def m_def)
    have r4096: "cp div 4096 = r"
      by (simp add: r_def q_def div_mult2_eq)
    have h262144: "cp div 262144 = h"
      by (simp add: h_def r_def q_def div_mult2_eq)
    have "utf8_bytes cp = [of_nat (0xF0 + h), of_nat (0x80 + m), of_nat (0x80 + n), of_nat (0x80 + l)]"
      using 3 by (simp add: utf8_bytes_def h262144 r4096) (simp add: q_def l_def m_def n_def)
    moreover have "h < 5" "h = 0 \<longrightarrow> 16 \<le> m" "h = 4 \<longrightarrow> m < 16"
      using assms 3 cp q r l m n by linarith+
    moreover have "h * 262144 + m * 4096 + n * 64 + l = cp"
      using cp q r by simp
    ultimately show ?thesis using utf8_code_point_4[of h m n l] l m n by simp
  qed
qed

lemma lead_byte_2: "between 0xC2 0xDF b \<Longrightarrow> \<not> b < 0x80"
  by (simp add: between_def byte_le)

lemma lead_byte_3: "between 0xE0 0xEF b \<Longrightarrow> \<not> b < 0x80 \<and> \<not> between 0xC2 0xDF b"
  by (simp add: between_def byte_le)

lemma lead_byte_4:
  "between 0xF0 0xF4 b \<Longrightarrow> \<not> b < 0x80 \<and> \<not> between 0xC2 0xDF b \<and> \<not> between 0xE0 0xEF b"
  by (simp add: between_def byte_le)

lemma utf8_decode_code_point:
  assumes "utf8_code_point bs = Some v"
  shows "utf8_decode (bs @ rest) = codeUnits v @ utf8_decode rest"
proof -
  from assms consider
      b b1 where "bs = [b, b1]" "between 0xC2 0xDF b" "between 0x80 0xBF b1"
        "v = (unat b - 0xC0) * 64 + tailBits b1"
    | b b1 b2 where "bs = [b, b1, b2]" "between 0xE0 0xEF b"
        "between (lowerBoundary b) (upperBoundary b) b1" "between 0x80 0xBF b2"
        "v = (unat b - 0xE0) * 4096 + tailBits b1 * 64 + tailBits b2"
    | b b1 b2 b3 where "bs = [b, b1, b2, b3]" "between 0xF0 0xF4 b"
        "between (lowerBoundary b) (upperBoundary b) b1" "between 0x80 0xBF b2" "between 0x80 0xBF b3"
        "v = (unat b - 0xF0) * 262144 + tailBits b1 * 4096 + tailBits b2 * 64 + tailBits b3"
    unfolding utf8_code_point_def by (simp split: list.splits if_splits)
  then show ?thesis
  proof cases
    case 1
    then show ?thesis using lead_byte_2[of b] by simp
  next
    case 2
    then show ?thesis using lead_byte_3[of b] by simp
  next
    case 3
    then show ?thesis using lead_byte_4[of b] by simp
  qed
qed

lemma ucast_ascii: "cp < 0x80 \<Longrightarrow> (ucast (of_nat cp :: byte) :: jschar) = of_nat cp"
proof -
  assume "cp < 0x80"
  then have "take_bit 8 cp = cp" by (simp add: take_bit_nat_eq_self_iff)
  then show ?thesis by (simp add: unsigned_of_nat)
qed

lemma utf8_decode_ascii:
  "cp < 0x80 \<Longrightarrow> utf8_decode (utf8_bytes cp @ rest) = codeUnits cp @ utf8_decode rest"
  by (simp add: utf8_bytes_def codeUnits_def byte_le unat_byte ucast_ascii)

lemma utf8_decode_bytes:
  assumes "cp < 0x110000" "\<not> isSurrogate cp"
  shows "utf8_decode (utf8_bytes cp @ rest) = codeUnits cp @ utf8_decode rest"
proof (cases "cp < 0x80")
  case True
  then show ?thesis by (rule utf8_decode_ascii)
next
  case False
  then show ?thesis
    using assms by (intro utf8_decode_code_point utf8_code_point_bytes) simp_all
qed

lemma codePoints_range: "list_all (\<lambda>cp. cp < 0x110000) (codePoints s)"
proof (induction s rule: codePoints.induct)
  case (2 c)
  show ?case using unsigned_less[of c, where 'a = nat] by simp
next
  case (3 c d r)
  have c: "unat c < 65536" using unsigned_less[of c, where 'a = nat] by simp
  have "isLeadingSurrogate c \<Longrightarrow> isTrailingSurrogate d \<Longrightarrow>
        0x10000 + (unat c - 0xD800) * 1024 + (unat d - 0xDC00) < 0x110000"
    by (simp add: isLeadingSurrogate_def isTrailingSurrogate_def word_le_nat_alt) arith
  with 3 c show ?case by simp
qed simp

lemma codeUnits_pair:
  assumes "isLeadingSurrogate c" "isTrailingSurrogate d"
  shows "codeUnits (0x10000 + (unat c - 0xD800) * 1024 + (unat d - 0xDC00)) = [c, d]"
proof -
  let ?cp = "0x10000 + (unat c - 0xD800) * 1024 + (unat d - 0xDC00)"
  have c: "0xD800 \<le> unat c" "unat c \<le> 0xDBFF" and d: "0xDC00 \<le> unat d" "unat d \<le> 0xDFFF"
    using assms by (simp_all add: isLeadingSurrogate_def isTrailingSurrogate_def word_le_nat_alt)
  define a b where "a = unat c - 0xD800" and "b = unat d - 0xDC00"
  have b: "b < 1024" and ca: "0xD800 + a = unat c" and db: "0xDC00 + b = unat d"
    using c d by (simp_all add: a_def b_def)
  have cp: "?cp = 0x10000 + (a * 1024 + b)"
    by (simp add: a_def b_def)
  show ?thesis
    unfolding cp codeUnits_def using b by (simp add: ca db del: of_nat_add)
qed

lemma codeUnits_unit: "codeUnits (unat (c::jschar)) = [c]"
  using unsigned_less[of c, where 'a = nat] by (simp add: codeUnits_def)

lemma codeUnits_codePoints: "concat (map codeUnits (codePoints s)) = s"
  by (induction s rule: codePoints.induct) (simp_all add: codeUnits_pair codeUnits_unit)

lemma utf8_decode_encode: "isWellFormed s \<Longrightarrow> utf8_decode (utf8_encode s) = s"
proof -
  have "list_all (\<lambda>cp. cp < 0x110000 \<and> \<not> isSurrogate cp) cps \<Longrightarrow>
        utf8_decode (concat (map (\<lambda>cp. utf8_bytes (if isSurrogate cp then 0xFFFD else cp)) cps))
          = concat (map codeUnits cps)" for cps
    by (induction cps) (simp_all add: utf8_decode_bytes)
  moreover assume "isWellFormed s"
  then have "list_all (\<lambda>cp. cp < 0x110000 \<and> \<not> isSurrogate cp) (codePoints s)"
    using codePoints_range[of s] by (simp add: isWellFormed_def list_all_iff)
  ultimately show ?thesis
    by (simp add: utf8_encode_def codeUnits_codePoints)
qed

subsection \<open>Percent-encoded octets\<close>

lemma hexValue_upperHexChar: "d < 16 \<Longrightarrow> hexValue (upperHexChar d) = Some d"
proof -
  assume "d < 16"
  then have "d \<in> {0, 1, 2, 3, 4, 5, 6, 7, 8, 9, 10, 11, 12, 13, 14, 15}"
    by simp arith
  then show ?thesis
    by (elim insertE emptyE) (simp_all add: hexValue_def isRadixDigit_def digitValue_def upperHexChar_def)
qed

lemma percentOctet_encode: "percentOctet (percentEncode b @ rest) = Some b"
proof -
  have lt: "unat b div 16 < 16" "unat b mod 16 < 16"
    using unsigned_less[of b, where 'a = nat] by (simp_all add: less_mult_imp_div_less)
  have "of_nat (unat b div 16 * 16 + unat b mod 16) = b"
    by simp
  with lt show ?thesis
    by (simp add: percentOctet_def percentEncode_def hexValue_upperHexChar del: of_nat_add of_nat_mult)
qed

lemma drop_percentEncode: "drop 3 (percentEncode b @ rest) = rest"
  by (simp add: percentEncode_def)

lemma percentOctets_encode:
  "percentOctets (length bs) (concat (map percentEncode bs) @ rest) = Some bs"
  by (induction bs) (simp_all add: percentOctet_encode drop_percentEncode del: drop_append)

lemma length_percentEncode: "length (concat (map percentEncode bs)) = 3 * length bs"
  by (induction bs) (simp_all add: percentEncode_def)

lemma lead_byte_ones:
  assumes "utf8_code_point (b # bs) = Some v"
  shows "leadingOnes b = Suc (length bs) \<and> 1 \<le> length bs \<and> length bs \<le> 3"
proof -
  from assms consider
      "length bs = 1" "between 0xC2 0xDF b" | "length bs = 2" "between 0xE0 0xEF b"
    | "length bs = 3" "between 0xF0 0xF4 b"
    unfolding utf8_code_point_def by (auto split: list.splits if_splits)
  then show ?thesis
    by cases (simp_all add: leadingOnes_def between_def byte_le)
qed

lemma uri_decode_octets:
  assumes "utf8_code_point (b # bs) = Some v"
  shows "uri_decode (concat (map percentEncode (b # bs)) @ rest)
           = (case uri_decode rest of None \<Rightarrow> None | Some r \<Rightarrow> Some (codeUnits v @ r))"
proof -
  define tail where "tail = concat (map percentEncode bs) @ rest"
  define h l where "h = upperHexChar (unat b div 16)" and "l = upperHexChar (unat b mod 16)"
  have encoded: "concat (map percentEncode (b # bs)) @ rest = 0x25 # h # l # tail"
    by (simp add: percentEncode_def tail_def h_def l_def)
  have octet: "percentOctet (0x25 # h # l # tail) = Some b"
    using percentOctet_encode[of b tail] by (simp add: percentEncode_def h_def l_def)
  have ones: "leadingOnes b = Suc (length bs)" "1 \<le> length bs" "length bs \<le> 3"
    using lead_byte_ones[OF assms] by simp_all
  have octets: "percentOctets (length bs) tail = Some bs"
    unfolding tail_def by (rule percentOctets_encode)
  have rest: "drop (3 * length bs) tail = rest"
    unfolding tail_def by (simp add: length_percentEncode)
  have ne: "bs \<noteq> []"
    using ones by auto
  show ?thesis
    unfolding encoded using ones ne by (simp add: octet octets rest assms split: option.split)
qed

lemma uriUnreserved_ascii: "uriUnreserved cp \<Longrightarrow> cp < 0x80 \<and> cp \<noteq> 0x25"
  by (auto simp: uriUnreserved_def)

lemma uri_decode_unreserved:
  assumes "uriUnreserved cp"
  shows "uri_decode (of_nat cp # rest)
           = (case uri_decode rest of None \<Rightarrow> None | Some r \<Rightarrow> Some (codeUnits cp @ r))"
proof -
  have cp: "cp < 0x80" "cp \<noteq> 0x25"
    using uriUnreserved_ascii[OF assms] by simp_all
  then have "unat (of_nat cp :: jschar) = cp"
    by (simp add: unat_jschar)
  with cp have "(of_nat cp :: jschar) \<noteq> 0x25"
    by (simp add: jschar_eq)
  with cp show ?thesis
    by (simp add: codeUnits_def split: option.split)
qed

lemma uri_decode_ascii:
  assumes "cp < 0x80"
  shows "uri_decode (concat (map percentEncode (utf8_bytes cp)) @ rest)
           = (case uri_decode rest of None \<Rightarrow> None | Some r \<Rightarrow> Some (codeUnits cp @ r))"
proof -
  define b :: byte where "b = of_nat cp"
  define h l where "h = upperHexChar (unat b div 16)" and "l = upperHexChar (unat b mod 16)"
  have encoded: "concat (map percentEncode (utf8_bytes cp)) @ rest = 0x25 # h # l # rest"
    using assms by (simp add: utf8_bytes_def percentEncode_def b_def h_def l_def)
  have octet: "percentOctet (0x25 # h # l # rest) = Some b"
    using percentOctet_encode[of b rest] by (simp add: percentEncode_def h_def l_def)
  have ones: "leadingOnes b = 0"
    using assms by (simp add: leadingOnes_def b_def byte_le unat_byte)
  have "(ucast b :: jschar) = of_nat cp"
    unfolding b_def using assms by (rule ucast_ascii)
  then show ?thesis
    unfolding encoded using assms by (simp add: octet ones codeUnits_def split: option.split)
qed

lemma uri_decode_escape:
  assumes "cp < 0x110000" "\<not> isSurrogate cp"
  shows "uri_decode ((if uriUnreserved cp then [of_nat cp]
                      else concat (map percentEncode (utf8_bytes cp))) @ rest)
           = (case uri_decode rest of None \<Rightarrow> None | Some r \<Rightarrow> Some (codeUnits cp @ r))"
proof (cases "uriUnreserved cp")
  case True
  show ?thesis
    using uri_decode_unreserved[OF True, of rest] by (simp add: True del: uri_decode.simps)
next
  case False
  show ?thesis
  proof (cases "cp < 0x80")
    case True
    show ?thesis
      using uri_decode_ascii[OF True, of rest] by (simp add: False)
  next
    case high: False
    then have point: "utf8_code_point (utf8_bytes cp) = Some cp"
      using assms by (intro utf8_code_point_bytes) simp_all
    then obtain b bs where bytes: "utf8_bytes cp = b # bs"
      by (cases "utf8_bytes cp") (simp_all add: utf8_code_point_def)
    show ?thesis
      using point uri_decode_octets[of b bs cp rest] by (simp add: False bytes)
  qed
qed

lemma uri_decode_escaped:
  "list_all (\<lambda>cp. cp < 0x110000 \<and> \<not> isSurrogate cp) cps \<Longrightarrow>
   uri_decode (concat (map (\<lambda>cp. if uriUnreserved cp then [of_nat cp]
                                  else concat (map percentEncode (utf8_bytes cp))) cps))
     = Some (concat (map codeUnits cps))"
proof (induction cps)
  case Nil
  show ?case by simp
next
  case (Cons cp cps)
  then have cp: "cp < 0x110000" "\<not> isSurrogate cp" by simp_all
  from Cons show ?case
    by (simp add: uri_decode_escape[OF cp] del: uri_decode.simps)
qed

lemma decodeURIComponent_encodeURIComponent:
  assumes "isWellFormed s"
  shows "\<exists>y. encodeURIComponent s = Return y \<and> decodeURIComponent y = Return s"
proof -
  have "list_all (\<lambda>cp. cp < 0x110000 \<and> \<not> isSurrogate cp) (codePoints s)"
    using assms codePoints_range[of s] by (simp add: isWellFormed_def list_all_iff)
  then show ?thesis
    using assms
    by (simp add: encodeURIComponent_def decodeURIComponent_def uri_decode_escaped codeUnits_codePoints)
qed

subsection \<open>References of HTML\<close>

lemma startsWith_comparable: "startsWith (r @ rest) p \<Longrightarrow> comparable p r"
proof -
  assume "startsWith (r @ rest) p"
  then have p: "take (length p) (r @ rest) = p" by (simp add: startsWith_def)
  have "take (length r) p = take (length r) (take (length p) (r @ rest))" by (simp only: p)
  also have "\<dots> = take (length p) (take (length r) (r @ rest))" by (simp only: take_take min.commute)
  also have "\<dots> = take (length p) r" by simp
  finally show ?thesis by (simp add: comparable_def)
qed

lemma find_None_comparable:
  "list_all (\<lambda>p. \<not> comparable p r) ps \<Longrightarrow> find (startsWith (r @ rest)) ps = None"
  by (auto simp: find_None_iff list_all_iff dest: startsWith_comparable)

lemma find_own_name:
  assumes "list_all (\<lambda>m. comparable m (n @ js '';'') \<longrightarrow> m = n) ms"
  shows "find (startsWith (n @ js '';'' @ rest)) ms = None
       \<or> find (startsWith (n @ js '';'' @ rest)) ms = Some n"
proof (cases "find (startsWith (n @ js '';'' @ rest)) ms")
  case None
  then show ?thesis by simp
next
  case (Some m)
  then have "m \<in> set ms" "startsWith ((n @ js '';'') @ rest) m"
    by (auto simp: find_Some_iff)
  then have "m = n"
    using assms startsWith_comparable[of "n @ js '';''" rest m] by (auto simp: list_all_iff)
  with Some show ?thesis by simp
qed

lemma written_name:
  assumes "(n, c) \<in> set written_references"
  shows "n \<noteq> []" "takeWhile isAlphanumeric (n @ js '';'' @ rest) = n"
    "take 1 (n @ js '';'' @ rest) \<noteq> js ''#''" "take 2 (n @ js '';'' @ rest) \<noteq> js ''#x''"
    "take 2 (n @ js '';'' @ rest) \<noteq> js ''#X''"
  using assms
  by (auto simp: written_references_def js_def isAlphanumeric_def isRadixDigit_def digitValue_def)

lemma referenceBody_written:
  assumes "reads_written_references T" "(n, c) \<in> set written_references"
  shows "referenceBody T (n @ js '';'' @ rest) = length n"
proof -
  from assms have "list_all (\<lambda>m. comparable m (n @ js '';'') \<longrightarrow> m = n) (legacy_names T)"
    by (auto simp: reads_written_references_def list_all_iff)
  from find_own_name[OF this, of rest] show ?thesis
    using written_name[OF assms(2)] by (auto simp: referenceBody_def)
qed

lemma referenceLength_written:
  assumes "reads_written_references T" "(n, c) \<in> set written_references"
  shows "referenceLength T (0x26 # n @ js '';'' @ rest) = length n + 2"
proof -
  from assms have "list_all (\<lambda>p. \<not> comparable p (js ''&'' @ n @ js '';'')) (first_references T)"
    by (auto simp: reads_written_references_def list_all_iff)
  from find_None_comparable[OF this, of rest]
  have "find (startsWith (0x26 # n @ js '';'' @ rest)) (first_references T) = None"
    by (simp add: js_def)
  moreover have "take 1 (drop (length n) (n @ js '';'' @ rest)) = js '';''"
    by (simp add: js_def)
  ultimately show ?thesis
    using written_name(1)[OF assms(2)]
    by (simp add: referenceLength_def referenceBody_written[OF assms] Let_def)
qed

lemma html_decode_written:
  assumes "reads_written_references T" "(n, c) \<in> set written_references"
  shows "html_decode T (js ''&'' @ n @ js '';'' @ rest) = c # html_decode T rest"
proof -
  from assms have ref: "map_of (references T) (js ''&'' @ n @ js '';'') = Some [c]"
    by (auto simp: reads_written_references_def list_all_iff)
  have taken: "take (length n + 2) (0x26 # n @ js '';'' @ rest) = js ''&'' @ n @ js '';''"
    by (simp add: js_def)
  have dropped: "drop (length n + 2 - 1) (n @ js '';'' @ rest) = rest"
    by (simp add: js_def)
  have "html_decode T (0x26 # n @ js '';'' @ rest) = c # html_decode T rest"
    unfolding html_decode.simps referenceLength_written[OF assms] taken dropped
    by (simp add: decodeReference_def ref)
  then show ?thesis by (simp add: js_def)
qed

lemma html_decode_char:
  assumes "reads_written_references T"
  shows "html_decode T ((if c = 0x3C then js ''&lt;''
                         else if c = 0x3E then js ''&gt;''
                         else if c = 0x27 then js ''&apos;''
                         else if c = 0x22 then js ''&quot;''
                         else if c = 0x26 then js ''&amp;''
                         else [c]) @ rest) = c # html_decode T rest"
proof -
  have w: "html_decode T (js ''&'' @ js ''lt'' @ js '';'' @ rest) = 0x3C # html_decode T rest"
    "html_decode T (js ''&'' @ js ''gt'' @ js '';'' @ rest) = 0x3E # html_decode T rest"
    "html_decode T (js ''&'' @ js ''apos'' @ js '';'' @ rest) = 0x27 # html_decode T rest"
    "html_decode T (js ''&'' @ js ''quot'' @ js '';'' @ rest) = 0x22 # html_decode T rest"
    "html_decode T (js ''&'' @ js ''amp'' @ js '';'' @ rest) = 0x26 # html_decode T rest"
    by (rule html_decode_written[OF assms], simp add: written_references_def)+
  have names: "js ''&lt;'' = js ''&'' @ js ''lt'' @ js '';''" "js ''&gt;'' = js ''&'' @ js ''gt'' @ js '';''"
    "js ''&apos;'' = js ''&'' @ js ''apos'' @ js '';''" "js ''&quot;'' = js ''&'' @ js ''quot'' @ js '';''"
    "js ''&amp;'' = js ''&'' @ js ''amp'' @ js '';''"
    by (simp_all add: js_def)
  consider "c = 0x3C" | "c = 0x3E" | "c = 0x27" | "c = 0x22" | "c = 0x26"
    | "c \<noteq> 0x3C" "c \<noteq> 0x3E" "c \<noteq> 0x27" "c \<noteq> 0x22" "c \<noteq> 0x26"
    by blast
  then show ?thesis
  proof cases
    case 1
    show ?thesis unfolding 1 names using w(1) by (simp del: html_decode.simps)
  next
    case 2
    show ?thesis unfolding 2 names using w(2) by (simp del: html_decode.simps)
  next
    case 3
    show ?thesis unfolding 3 names using w(3) by (simp del: html_decode.simps)
  next
    case 4
    show ?thesis unfolding 4 names using w(4) by (simp del: html_decode.simps)
  next
    case 5
    show ?thesis unfolding 5 names using w(5) by (simp del: html_decode.simps)
  next
    case 6
    then show ?thesis by simp
  qed
qed

lemma html_decode_encode:
  assumes "reads_written_references T"
  shows "html_decode T (html_encode s) = s"
proof (induction s)
  case Nil
  show ?case by (simp add: html_encode_def)
next
  case (Cons c s)
  then show ?case
    unfolding html_encode_def list.map concat.simps
    by (simp only: html_decode_char[OF assms])
qed

subsection \<open>Round trips\<close>

lemma entry_value:
  "map_of (manipulateString P now x) ''Hex encoding'' = Some (null_coalesce_empty (caught (Hex_encoding x)))"
  "map_of (manipulateString P now x) ''Hex decoding'' = Some (null_coalesce_empty (caught (Hex_decoding x)))"
  "map_of (manipulateString P now x) ''Base64 encoding'' = Some (null_coalesce_empty (caught (Base64_encoding x)))"
  "map_of (manipulateString P now x) ''Base64 decoding'' = Some (null_coalesce_empty (caught (Base64_decoding x)))"
  "map_of (manipulateString P now x) ''URL encoding'' = Some (null_coalesce_empty (caught (URL_encoding x)))"
  "map_of (manipulateString P now x) ''URL decoding'' = Some (null_coalesce_empty (caught (URL_decoding x)))"
  "map_of (manipulateString P now x) ''HTML encoding'' = Some (null_coalesce_empty (caught (HTML_encoding x)))"
  "map_of (manipulateString P now x) ''HTML decoding'' = Some (null_coalesce_empty (caught (HTML_decoding P x)))"
  by (simp_all add: value_of_key manipulations_def)

lemma returned_value: "null_coalesce_empty (caught (Return (Some v))) = v"
  by (simp add: null_coalesce_empty_def caught_def)

text \<open>
  C9. Encoding a text and decoding the result gives the text back. For "Hex", "Base64"
  and "URL" this holds for every well-formed text, one without unpaired surrogates, which
  every printable text is: the encoding returns a text, and the decoding of that text
  returns the input. For "HTML" it holds for every text, given that the tables of HTML5
  read the five references that \<open>encode\<close> writes. The values of the entries in the
  result of the runner are these texts.
\<close>

theorem encodings_round_trip:
  "(isWellFormed x \<longrightarrow>
      (\<exists>y. Hex_encoding x = Return (Some y) \<and> Hex_decoding y = Return (Some x)
          \<and> map_of (manipulateString P now x) ''Hex encoding'' = Some y
          \<and> map_of (manipulateString P now y) ''Hex decoding'' = Some x)
    \<and> (\<exists>y. Base64_encoding x = Return (Some y) \<and> Base64_decoding y = Return (Some x)
          \<and> map_of (manipulateString P now x) ''Base64 encoding'' = Some y
          \<and> map_of (manipulateString P now y) ''Base64 decoding'' = Some x)
    \<and> (\<exists>y. URL_encoding x = Return (Some y) \<and> URL_decoding y = Return (Some x)
          \<and> map_of (manipulateString P now x) ''URL encoding'' = Some y
          \<and> map_of (manipulateString P now y) ''URL decoding'' = Some x))
   \<and> (reads_written_references (html5 P) \<longrightarrow>
        (\<exists>y. HTML_encoding x = Return (Some y) \<and> HTML_decoding P y = Return (Some x)
          \<and> map_of (manipulateString P now x) ''HTML encoding'' = Some y
          \<and> map_of (manipulateString P now y) ''HTML decoding'' = Some x))"
proof (intro conjI impI)
  assume x: "isWellFormed x"
  show "\<exists>y. Hex_encoding x = Return (Some y) \<and> Hex_decoding y = Return (Some x)
          \<and> map_of (manipulateString P now x) ''Hex encoding'' = Some y
          \<and> map_of (manipulateString P now y) ''Hex decoding'' = Some x"
    by (simp add: entry_value returned_value Hex_encoding_def Hex_decoding_def hex_decode_encode
        utf8_decode_encode[OF x])
  show "\<exists>y. Base64_encoding x = Return (Some y) \<and> Base64_decoding y = Return (Some x)
          \<and> map_of (manipulateString P now x) ''Base64 encoding'' = Some y
          \<and> map_of (manipulateString P now y) ''Base64 decoding'' = Some x"
    by (simp add: entry_value returned_value Base64_encoding_def Base64_decoding_def
        base64_decode_encode utf8_decode_encode[OF x])
  from decodeURIComponent_encodeURIComponent[OF x]
  obtain y where "encodeURIComponent x = Return y" "decodeURIComponent y = Return x"
    by blast
  then show "\<exists>y. URL_encoding x = Return (Some y) \<and> URL_decoding y = Return (Some x)
          \<and> map_of (manipulateString P now x) ''URL encoding'' = Some y
          \<and> map_of (manipulateString P now y) ''URL decoding'' = Some x"
    by (simp add: entry_value returned_value URL_encoding_def URL_decoding_def returning_def)
next
  assume T: "reads_written_references (html5 P)"
  show "\<exists>y. HTML_encoding x = Return (Some y) \<and> HTML_decoding P y = Return (Some x)
          \<and> map_of (manipulateString P now x) ''HTML encoding'' = Some y
          \<and> map_of (manipulateString P now y) ''HTML decoding'' = Some x"
    by (simp add: entry_value returned_value HTML_encoding_def HTML_decoding_def
        html_decode_encode[OF T])
qed

lemma example_encoded:
  "Hex_encoding (js ''a<'' @ [0xE9]) = Return (Some (js ''613cc3a9''))
   \<and> Base64_encoding (js ''a<'' @ [0xE9]) = Return (Some (js ''YTzDqQ==''))
   \<and> URL_encoding (js ''a<'' @ [0xE9]) = Return (Some (js ''a%3C%C3%A9''))
   \<and> HTML_encoding (js ''a<'' @ [0xE9]) = Return (Some (js ''a&lt;'' @ [0xE9]))"
  by (simp add: Hex_encoding_def Base64_encoding_def URL_encoding_def HTML_encoding_def
      hex_encode_def base64_encode_def utf8_encode_def utf8_bytes_def isSurrogate_def
      isLeadingSurrogate_def isTrailingSurrogate_def encodeURIComponent_def isWellFormed_def
      uriUnreserved_def percentEncode_def upperHexChar_def html_encode_def returning_def
      base64_char_def digitChar_def js_def; code_simp)

lemma example_hypotheses:
  "isWellFormed (js ''a<'' @ [0xE9]) \<and> reads_written_references (html5 example_platform)"
  by (simp add: isWellFormed_def isSurrogate_def isLeadingSurrogate_def isTrailingSurrogate_def
      reads_written_references_def written_references_def comparable_def example_platform_def
      example_tables_def js_def; code_simp)

theorem encodings_round_trip_witness:
  "isWellFormed (js ''a<'' @ [0xE9]) \<and> reads_written_references (html5 example_platform)
   \<and> Hex_encoding (js ''a<'' @ [0xE9]) = Return (Some (js ''613cc3a9''))
   \<and> Hex_decoding (js ''613cc3a9'') = Return (Some (js ''a<'' @ [0xE9]))
   \<and> Base64_encoding (js ''a<'' @ [0xE9]) = Return (Some (js ''YTzDqQ==''))
   \<and> Base64_decoding (js ''YTzDqQ=='') = Return (Some (js ''a<'' @ [0xE9]))
   \<and> URL_encoding (js ''a<'' @ [0xE9]) = Return (Some (js ''a%3C%C3%A9''))
   \<and> URL_decoding (js ''a%3C%C3%A9'') = Return (Some (js ''a<'' @ [0xE9]))
   \<and> HTML_encoding (js ''a<'' @ [0xE9]) = Return (Some (js ''a&lt;'' @ [0xE9]))
   \<and> HTML_decoding example_platform (js ''a&lt;'' @ [0xE9]) = Return (Some (js ''a<'' @ [0xE9]))"
  using encodings_round_trip [of "js ''a<'' @ [0xE9]" example_platform 0]
  by (simp add: example_encoded example_hypotheses)

end
